theory Spec2Isabelle
  imports Complex_Main "HOL-Library.AList"
begin

section \<open>Python values\<close>

text \<open>
  The functions of \<^verbatim>\<open>utils.py\<close> work on decoded JSON payloads and are dynamically
  typed, so the model has one type of Python values. A dictionary is an association
  list with string keys (the keys of a decoded JSON object), in insertion order;
  lookup takes the first binding of a key. Strings are lists of 8-bit characters.
\<close>

datatype pyval =
    PNone
  | PBool bool
  | PInt int
  | PFloat rat
  | PStr string
  | PList "pyval list"
  | PTuple "pyval list"
  | PDict "(string \<times> pyval) list"

text \<open>
  The classes of \<^verbatim>\<open>openai.error\<close>; \<open>OtherError\<close> stands for every exception outside
  the module. None of the classes listed in the decorators has a subclass.
\<close>

datatype openai_error =
    RateLimitError
  | APIError
  | APIConnectionError
  | ServiceUnavailableError
  | Timeout
  | TryAgain
  | InvalidRequestError
  | AuthenticationError
  | PermissionError
  | OtherError

text \<open>
  The exceptions the modelled code can raise; \<open>OpenAI e\<close> is an exception of a request to
  the embedding or completion service. \<open>Not_Modelled\<close> is no exception: it marks the
  two branches of \<^verbatim>\<open>load\<close> that the model does not follow (floating-point addition, and
  a cache stored as a list of pairs).
\<close>

datatype pyerr =
    AttributeError
  | TypeError
  | IndexError
  | KeyError string
  | UnboundLocalError
  | JSONDecodeError
  | FileNotFoundError
  | BaseException
  | MissingKey string
  | OpenAI openai_error
  | Not_Modelled

text \<open>Sequencing of statements that may raise: the first exception ends the run.\<close>

definition bindE :: "pyerr + 'a \<Rightarrow> ('a \<Rightarrow> pyerr + 'b) \<Rightarrow> pyerr + 'b" where
  "bindE m f = (case m of Inl e \<Rightarrow> Inl e | Inr v \<Rightarrow> f v)"

text \<open>Truth value testing (\<^verbatim>\<open>if x:\<close>).\<close>

fun truthy :: "pyval \<Rightarrow> bool" where
  "truthy PNone = False"
| "truthy (PBool b) = b"
| "truthy (PInt i) = (i \<noteq> 0)"
| "truthy (PFloat r) = (r \<noteq> 0)"
| "truthy (PStr s) = (s \<noteq> [])"
| "truthy (PList xs) = (xs \<noteq> [])"
| "truthy (PTuple xs) = (xs \<noteq> [])"
| "truthy (PDict kvs) = (kvs \<noteq> [])"

text \<open>\<^verbatim>\<open>d.get(key, default)\<close>: only a dictionary has the method.\<close>

fun py_get :: "pyval \<Rightarrow> string \<Rightarrow> pyval \<Rightarrow> pyerr + pyval" where
  "py_get (PDict kvs) k d = Inr (case map_of kvs k of None \<Rightarrow> d | Some v \<Rightarrow> v)"
| "py_get _ k d = Inl AttributeError"

text \<open>Decimal digits of an integer, as \<^verbatim>\<open>str\<close> prints it.\<close>

definition digit_char :: "nat \<Rightarrow> char" where
  "digit_char d = ''0123456789'' ! (d mod 10)"

function dec_nat :: "nat \<Rightarrow> string" where
  "dec_nat n = (if n < 10 then [digit_char n] else dec_nat (n div 10) @ [digit_char (n mod 10)])"
  by pat_completeness auto
termination
  by (relation "measure id") auto

declare dec_nat.simps [simp del]

definition str_of_int :: "int \<Rightarrow> string" where
  "str_of_int i = (if i < 0 then ''-'' @ dec_nat (nat (- i)) else dec_nat (nat i))"

text \<open>
  \<^verbatim>\<open>str(x)\<close>, which is also what an f-string field \<^verbatim>\<open>{x}\<close> prints. The text of a
  string is the string, an integer prints in decimal, \<^verbatim>\<open>None\<close> and the booleans print
  their names. How a float or a container prints is the interpreter's \<^verbatim>\<open>repr\<close>; it is
  the parameter \<open>R\<close> of the model, and every theorem holds for every \<open>R\<close>.
\<close>

fun py_str :: "(pyval \<Rightarrow> string) \<Rightarrow> pyval \<Rightarrow> string" where
  "py_str R PNone = ''None''"
| "py_str R (PBool b) = (if b then ''True'' else ''False'')"
| "py_str R (PInt i) = str_of_int i"
| "py_str R (PStr s) = s"
| "py_str R v = R v"

text \<open>
  \<^verbatim>\<open>sep.join(x)\<close>: \<open>x\<close> is iterated, and every item must be a string. Iterating a
  string gives its characters, iterating a dictionary gives its keys.
\<close>

fun join_str :: "string \<Rightarrow> string list \<Rightarrow> string" where
  "join_str sep [] = []"
| "join_str sep [x] = x"
| "join_str sep (x # y # ys) = x @ sep @ join_str sep (y # ys)"

fun the_strs :: "pyval list \<Rightarrow> string list option" where
  "the_strs [] = Some []"
| "the_strs (PStr s # vs) = (case the_strs vs of None \<Rightarrow> None | Some ss \<Rightarrow> Some (s # ss))"
| "the_strs (_ # vs) = None"

fun py_join :: "string \<Rightarrow> pyval \<Rightarrow> pyerr + string" where
  "py_join sep (PList xs) =
     (case the_strs xs of None \<Rightarrow> Inl TypeError | Some ss \<Rightarrow> Inr (join_str sep ss))"
| "py_join sep (PTuple xs) =
     (case the_strs xs of None \<Rightarrow> Inl TypeError | Some ss \<Rightarrow> Inr (join_str sep ss))"
| "py_join sep (PStr s) = Inr (join_str sep (map (\<lambda>c. [c]) s))"
| "py_join sep (PDict kvs) = Inr (join_str sep (map fst kvs))"
| "py_join sep _ = Inl TypeError"

text \<open>
  \<^verbatim>\<open>s.strip()\<close> removes the whitespace at both ends; the whitespace characters among the
  first 256 code points are 9 to 13, 28 to 32, 133 and 160.
\<close>

definition py_isspace :: "char \<Rightarrow> bool" where
  "py_isspace c =
     (let n = (of_char c :: nat)
      in (9 \<le> n \<and> n \<le> 13) \<or> (28 \<le> n \<and> n \<le> 32) \<or> n = 133 \<or> n = 160)"

definition py_strip :: "string \<Rightarrow> string" where
  "py_strip s = rev (dropWhile py_isspace (rev (dropWhile py_isspace s)))"

text \<open>A loop whose body produces documents or raises: the first exception ends it.\<close>

fun for_each :: "('a \<Rightarrow> pyerr + 'b list) \<Rightarrow> 'a list \<Rightarrow> pyerr + 'b list" where
  "for_each f [] = Inr []"
| "for_each f (x # xs) =
     bindE (f x) (\<lambda>ds. bindE (for_each f xs) (\<lambda>rest. Inr (ds @ rest)))"

text \<open>A processed result: the pair \<^verbatim>\<open>(text, {"citation_data": citation_data})\<close>.\<close>

definition doc_pair :: "string \<Rightarrow> string \<Rightarrow> pyval" where
  "doc_pair body citation_data = PTuple [PStr body, PDict [(''citation_data'', PStr citation_data)]]"

text \<open>\<^verbatim>\<open>if not isinstance(results, list): results = [results]\<close>\<close>

fun as_list :: "pyval \<Rightarrow> pyval list" where
  "as_list (PList xs) = xs"
| "as_list v = [v]"

section \<open>Result processors\<close>

subsection \<open>\<^verbatim>\<open>process_myvariant_result\<close>\<close>

text \<open>
  The text of a record: a line for each field that is truthy, and the score line
  whenever the score is not \<^verbatim>\<open>None\<close>.
\<close>


definition variant_data :: "(pyval \<Rightarrow> string) \<Rightarrow> pyval \<Rightarrow> pyval \<Rightarrow> pyval \<Rightarrow> pyval \<Rightarrow> pyval \<Rightarrow> string" where
  "variant_data R variant_name gene_affected consequence cadd_score rsid =
     (if truthy variant_name then ''Variant Name: '' @ py_str R variant_name @ ''\<newline>'' else [])
     @ (if truthy gene_affected then ''Gene Affected: '' @ py_str R gene_affected @ ''\<newline>'' else [])
     @ (if truthy consequence then ''Consequence: '' @ py_str R consequence @ ''\<newline>'' else [])
     @ (if cadd_score \<noteq> PNone then ''CADD Score: '' @ py_str R cadd_score @ ''\<newline>'' else [])
     @ (if truthy rsid then ''rsID: '' @ py_str R rsid @ ''\<newline>'' else [])"

text \<open>
  The body of the loop over the records. Every record appends one pair to
  \<^verbatim>\<open>processed_result\<close>; the source has no test of \<^verbatim>\<open>variant_data\<close> before the append.
\<close>

definition myvariant_record :: "(pyval \<Rightarrow> string) \<Rightarrow> pyval \<Rightarrow> pyerr + pyval list" where
  "myvariant_record R result =
     bindE (py_get result ''_id'' PNone) (\<lambda>variant_name.
     bindE (bindE (bindE (py_get result ''cadd'' (PDict [])) (\<lambda>c. py_get c ''gene'' (PDict [])))
              (\<lambda>g. py_get g ''genename'' PNone)) (\<lambda>gene_affected.
     bindE (bindE (py_get result ''cadd'' (PDict [])) (\<lambda>c. py_get c ''consequence'' PNone))
       (\<lambda>consequence.
     bindE (bindE (py_get result ''cadd'' (PDict [])) (\<lambda>c. py_get c ''phred'' PNone))
       (\<lambda>cadd_score.
     bindE (bindE (py_get result ''dbsnp'' (PDict [])) (\<lambda>c. py_get c ''rsid'' PNone)) (\<lambda>rsid.
     Inr [doc_pair (variant_data R variant_name gene_affected consequence cadd_score rsid)
            []])))))"

definition process_myvariant_result :: "(pyval \<Rightarrow> string) \<Rightarrow> pyval \<Rightarrow> pyerr + pyval" where
  "process_myvariant_result R results =
     bindE (for_each (myvariant_record R) (as_list results)) (\<lambda>ds. Inr (PList ds))"

subsection \<open>\<^verbatim>\<open>process_mygene_result\<close>\<close>

text \<open>
  \<^verbatim>\<open>generif[:20]\<close> and the iteration over it. A list gives its first 20 items and a
  string its first 20 characters; a dictionary cannot be sliced and a number cannot
  be subscripted.
\<close>

fun slice20 :: "pyval \<Rightarrow> pyerr + pyval list" where
  "slice20 (PList xs) = Inr (take 20 xs)"
| "slice20 (PTuple xs) = Inr (take 20 xs)"
| "slice20 (PStr s) = Inr (map (\<lambda>c. PStr [c]) (take 20 s))"
| "slice20 _ = Inl TypeError"

text \<open>
  One research note: \<^verbatim>\<open>output_summary += text\<close> needs \<open>text\<close> to be a string. The
  loop state is the pair of \<^verbatim>\<open>output_summary\<close> and \<^verbatim>\<open>citation_data\<close>.
\<close>

definition rif_step :: "(pyval \<Rightarrow> string) \<Rightarrow> string \<times> string \<Rightarrow> pyval \<Rightarrow> pyerr + string \<times> string" where
  "rif_step R acc rif =
     bindE (py_get rif ''pubmed'' PNone) (\<lambda>pubmed.
     bindE (py_get rif ''text'' PNone) (\<lambda>txt.
     if truthy txt then
       (case txt of
          PStr t \<Rightarrow>
            Inr (fst acc @ t,
                 if truthy pubmed then snd acc @ '' Pubmed ID: '' @ py_str R pubmed else snd acc)
        | _ \<Rightarrow> Inl TypeError)
     else Inr acc))"

fun rif_loop :: "(pyval \<Rightarrow> string) \<Rightarrow> string \<times> string \<Rightarrow> pyval list \<Rightarrow> pyerr + string \<times> string" where
  "rif_loop R acc [] = Inr acc"
| "rif_loop R acc (rif # rifs) = bindE (rif_step R acc rif) (\<lambda>acc'. rif_loop R acc' rifs)"

text \<open>The line \<^verbatim>\<open>RefSeq ...: {', '.join(v)}\<close>, written only when \<open>v\<close> is truthy.\<close>

definition refseq_line :: "string \<Rightarrow> pyval \<Rightarrow> pyerr + string" where
  "refseq_line label v =
     (if truthy v then bindE (py_join '', '' v) (\<lambda>j. Inr (label @ j @ ''\<newline>'')) else Inr [])"

text \<open>A line \<^verbatim>\<open>label{v}\n\<close>, written only when \<open>v\<close> is truthy.\<close>

definition field_line :: "(pyval \<Rightarrow> string) \<Rightarrow> string \<Rightarrow> pyval \<Rightarrow> string" where
  "field_line R label v = (if truthy v then label @ py_str R v @ ''\<newline>'' else [])"

definition type_line :: "(pyval \<Rightarrow> string) \<Rightarrow> pyval \<Rightarrow> string" where
  "type_line R type_of_gene =
     (if truthy type_of_gene \<and> type_of_gene \<noteq> PStr ''unknown''
      then ''Type of gene: '' @ py_str R type_of_gene @ ''\<newline>'' else [])"

text \<open>
  The summary half of the loop body: the text before \<^verbatim>\<open>strip\<close> and the citation data.
\<close>

definition gene_summary ::
  "(pyval \<Rightarrow> string) \<Rightarrow> pyval \<Rightarrow> pyval \<Rightarrow> pyval \<Rightarrow> pyval \<Rightarrow> pyval \<Rightarrow> pyval \<Rightarrow> pyval \<Rightarrow> pyval \<Rightarrow> pyval
     \<Rightarrow> pyerr + string \<times> string" where
  "gene_summary R name refseq_genomic refseq_rna symbol taxid type_of_gene pos summary generif =
     bindE (refseq_line ''RefSeq genomic: '' refseq_genomic) (\<lambda>lg.
     bindE (refseq_line ''RefSeq rna: '' refseq_rna) (\<lambda>lr.
     (let output_summary =
            field_line R ''Gene Name: '' name @ lg @ lr
            @ field_line R ''Symbol: '' symbol
            @ field_line R ''Tax ID: '' taxid
            @ type_line R type_of_gene
            @ field_line R ''Position: '' pos
      in if truthy summary then
           Inr (output_summary @ ''Summary of '' @ py_str R name @ '': '' @ py_str R summary
                  @ ''\<newline>'', [])
         else if truthy generif then
           bindE (slice20 generif) (\<lambda>rifs. rif_loop R (output_summary, []) rifs)
         else Inr (output_summary, []))))"

text \<open>
  The pathway half. The six listings are read with the default \<^verbatim>\<open>[]\<close>; a value that
  is not a list is wrapped in one. Every item of a listing must be a dictionary.
\<close>

definition pathway_keys :: "string list" where
  "pathway_keys = [''kegg'', ''pid'', ''reactome'', ''wikipathways'', ''netpath'', ''biocarta'']"

fun pathway_elements :: "pyval \<Rightarrow> string list \<Rightarrow> pyerr + (string \<times> pyval list) list" where
  "pathway_elements pathway [] = Inr []"
| "pathway_elements pathway (k # ks) =
     bindE (py_get pathway k (PList [])) (\<lambda>v.
     bindE (pathway_elements pathway ks) (\<lambda>rest. Inr ((k, as_list v) # rest)))"

definition pathway_item :: "(pyval \<Rightarrow> string) \<Rightarrow> pyval \<Rightarrow> pyerr + string" where
  "pathway_item R item =
     bindE (py_get item ''id'' (PStr [])) (\<lambda>i.
     bindE (py_get item ''name'' (PStr [])) (\<lambda>n.
     Inr ('' ID: '' @ py_str R i @ '' Name: '' @ py_str R n)))"

fun pathway_items :: "(pyval \<Rightarrow> string) \<Rightarrow> pyval list \<Rightarrow> pyerr + string" where
  "pathway_items R [] = Inr []"
| "pathway_items R (item # items) =
     bindE (pathway_item R item) (\<lambda>s. bindE (pathway_items R items) (\<lambda>rest. Inr (s @ rest)))"

fun pathway_listing :: "(pyval \<Rightarrow> string) \<Rightarrow> (string \<times> pyval list) list \<Rightarrow> pyerr + string" where
  "pathway_listing R [] = Inr []"
| "pathway_listing R ((k, v) # kvs) =
     bindE (pathway_items R v) (\<lambda>s.
     bindE (pathway_listing R kvs) (\<lambda>rest. Inr (''\<newline>'' @ k @ '':\<newline>'' @ s @ rest)))"

definition gene_pathway ::
  "(pyval \<Rightarrow> string) \<Rightarrow> pyval \<Rightarrow> pyval \<Rightarrow> pyval \<Rightarrow> pyval \<Rightarrow> pyval \<Rightarrow> pyval \<Rightarrow> pyval \<Rightarrow> pyval
     \<Rightarrow> pyerr + string" where
  "gene_pathway R pathway name refseq_genomic refseq_rna symbol taxid type_of_gene pos =
     bindE (pathway_elements pathway pathway_keys) (\<lambda>elements.
     bindE (refseq_line ''RefSeq genomic: '' refseq_genomic) (\<lambda>lg.
     bindE (refseq_line ''RefSeq rna: '' refseq_rna) (\<lambda>lr.
     bindE (pathway_listing R elements) (\<lambda>listing.
     Inr (field_line R ''Gene Name: '' name
          @ field_line R ''Symbol: '' symbol
          @ field_line R ''Tax ID: '' taxid
          @ type_line R type_of_gene
          @ lg @ lr
          @ field_line R ''Position: '' pos
          @ ''PATHWAYS\<newline>\<newline>''
          @ listing)))))"

text \<open>The loop body: up to two documents for a record, the summary first.\<close>

definition mygene_record :: "(pyval \<Rightarrow> string) \<Rightarrow> pyval \<Rightarrow> pyerr + pyval list" where
  "mygene_record R json_data =
     bindE (py_get json_data ''name'' PNone) (\<lambda>name.
     bindE (bindE (py_get json_data ''refseq'' (PDict [])) (\<lambda>r. py_get r ''genomic'' (PList [])))
       (\<lambda>refseq_genomic.
     bindE (bindE (py_get json_data ''refseq'' (PDict [])) (\<lambda>r. py_get r ''rna'' (PList [])))
       (\<lambda>refseq_rna.
     bindE (py_get json_data ''symbol'' PNone) (\<lambda>symbol.
     bindE (py_get json_data ''taxid'' PNone) (\<lambda>taxid.
     bindE (py_get json_data ''type_of_gene'' PNone) (\<lambda>type_of_gene.
     bindE (py_get json_data ''genomic_pos_hg19'' PNone) (\<lambda>pos.
     bindE (py_get json_data ''summary'' PNone) (\<lambda>summary.
     bindE (py_get json_data ''generif'' PNone) (\<lambda>generif.
     bindE (gene_summary R name refseq_genomic refseq_rna symbol taxid type_of_gene pos
              summary generif) (\<lambda>(raw_summary, citation_data).
     (let output_summary = py_strip raw_summary;
          summary_docs = (if output_summary \<noteq> [] then [doc_pair output_summary citation_data] else [])
      in
     bindE (py_get json_data ''pathway'' PNone) (\<lambda>pathway.
     if truthy pathway then
       bindE (gene_pathway R pathway name refseq_genomic refseq_rna symbol taxid type_of_gene pos)
         (\<lambda>raw_pathway.
       (let output_pathway = py_strip raw_pathway
        in Inr (summary_docs
                @ (if output_pathway \<noteq> [] then [doc_pair output_pathway []] else []))))
     else Inr summary_docs))))))))))))"

definition process_mygene_result :: "(pyval \<Rightarrow> string) \<Rightarrow> pyval \<Rightarrow> pyerr + pyval" where
  "process_mygene_result R results =
     bindE (for_each (mygene_record R) (as_list results)) (\<lambda>ds. Inr (PList ds))"

subsection \<open>\<^verbatim>\<open>process_pubmed_result\<close>\<close>

text \<open>
  An element of the tree \<^verbatim>\<open>ET.fromstring\<close> returns: its tag, its attributes, its text
  (\<^verbatim>\<open>None\<close> when the element has none) and its children in document order.
\<close>

datatype xml = Element string "(string \<times> string) list" "string option" "xml list"

fun etag :: "xml \<Rightarrow> string" where
  "etag (Element t a x cs) = t"

fun eattrib :: "xml \<Rightarrow> (string \<times> string) list" where
  "eattrib (Element t a x cs) = a"

fun etext :: "xml \<Rightarrow> string option" where
  "etext (Element t a x cs) = x"

fun echildren :: "xml \<Rightarrow> xml list" where
  "echildren (Element t a x cs) = cs"

text \<open>
  \<^verbatim>\<open>e.iter(tag)\<close>: the element itself and all its descendants with that tag, in document
  order. \<^verbatim>\<open>e.find(tag)\<close>: the first child with that tag, or \<^verbatim>\<open>None\<close>.
\<close>

fun iter :: "string \<Rightarrow> xml \<Rightarrow> xml list" where
  "iter t (Element t' a x cs) =
     (if t' = t then [Element t' a x cs] else []) @ concat (map (iter t) cs)"

definition efind :: "string \<Rightarrow> xml \<Rightarrow> xml option" where
  "efind t e = find (\<lambda>c. etag c = t) (echildren e)"

text \<open>The field \<^verbatim>\<open>{e.text}\<close> of an f-string: a missing text prints as \<^verbatim>\<open>None\<close>.\<close>

definition text_str :: "xml \<Rightarrow> string" where
  "text_str e = (case etext e of None \<Rightarrow> ''None'' | Some s \<Rightarrow> s)"

definition text_lines :: "xml list \<Rightarrow> string" where
  "text_lines es = concat (map (\<lambda>e. text_str e @ ''\<newline>'') es)"

text \<open>
  The author loop runs under \<^verbatim>\<open>try ... except: pass\<close>: what was appended before a
  missing child stays.
\<close>

definition author_citation :: "xml \<Rightarrow> string" where
  "author_citation author =
     (case efind ''LastName'' author of
        None \<Rightarrow> []
      | Some l \<Rightarrow>
          text_str l
          @ (case efind ''ForeName'' author of
               None \<Rightarrow> []
             | Some f \<Rightarrow> '', '' @ text_str f @ ''\<newline>''))"

definition pubdate_citation :: "xml \<Rightarrow> string" where
  "pubdate_citation pubdate =
     (case efind ''Year'' pubdate of
        None \<Rightarrow> []
      | Some y \<Rightarrow>
          text_str y
          @ (case efind ''Month'' pubdate of
               None \<Rightarrow> []
             | Some m \<Rightarrow>
                 ''-'' @ text_str m
                 @ (case efind ''Day'' pubdate of
                      None \<Rightarrow> []
                    | Some d \<Rightarrow> ''-'' @ text_str d @ ''\<newline>'')))"

text \<open>
  The journal loop has no \<^verbatim>\<open>try\<close>: \<^verbatim>\<open>journal.find('Title').text\<close> raises
  \<^verbatim>\<open>AttributeError\<close> on a journal with no \<^verbatim>\<open>Title\<close> child, and the exception leaves
  \<^verbatim>\<open>process_pubmed_result\<close>.
\<close>

fun journal_titles :: "xml list \<Rightarrow> pyerr + string" where
  "journal_titles [] = Inr []"
| "journal_titles (j # js) =
     (case efind ''Title'' j of
        None \<Rightarrow> Inl AttributeError
      | Some t \<Rightarrow> bindE (journal_titles js) (\<lambda>rest. Inr (text_str t @ ''\<newline>'' @ rest)))"

definition doi_lines :: "xml \<Rightarrow> string" where
  "doi_lines article =
     text_lines (filter (\<lambda>d. map_of (eattrib d) ''EIdType'' = Some ''doi'')
                   (iter ''ELocationID'' article))"

text \<open>
  The body of the loop over the articles: \<^verbatim>\<open>res_\<close> and \<^verbatim>\<open>citation_data\<close> after the
  eight inner loops.
\<close>

definition article_texts :: "xml \<Rightarrow> pyerr + string \<times> string" where
  "article_texts article =
     bindE (journal_titles (iter ''Journal'' article)) (\<lambda>journals.
     Inr (text_lines (iter ''Title'' article)
          @ text_lines (iter ''AbstractText'' article)
          @ journals
          @ doi_lines article,
          text_lines (iter ''Title'' article)
          @ concat (map author_citation (iter ''Author'' article))
          @ journals
          @ text_lines (iter ''Volume'' article)
          @ text_lines (iter ''Issue'' article)
          @ concat (map pubdate_citation (iter ''PubDate'' article))))"

definition pubmed_article :: "xml \<Rightarrow> pyerr + pyval list" where
  "pubmed_article article =
     bindE (article_texts article) (\<lambda>(res, citation_data).
     Inr (if res \<noteq> [] then [doc_pair res citation_data] else []))"

text \<open>
  \<^verbatim>\<open>ET.fromstring\<close> is the library's parser. On a text it is the parameter \<open>parse\<close>,
  which gives \<open>None\<close> where the parser raises; on anything that is not a text the
  parser raises \<^verbatim>\<open>TypeError\<close>.
\<close>

definition fromstring :: "(string \<Rightarrow> xml option) \<Rightarrow> pyval \<Rightarrow> xml option" where
  "fromstring parse v = (case v of PStr s \<Rightarrow> parse s | _ \<Rightarrow> None)"

text \<open>
  Every exception of the parser is caught: on a payload that does not parse the
  function returns the payload itself when it is a list, and otherwise the payload
  in a list.
\<close>

definition process_pubmed_result :: "(string \<Rightarrow> xml option) \<Rightarrow> pyval \<Rightarrow> pyerr + pyval" where
  "process_pubmed_result parse result =
     (case fromstring parse result of
        None \<Rightarrow> Inr (case result of PList xs \<Rightarrow> PList xs | _ \<Rightarrow> PList [result])
      | Some tree \<Rightarrow>
          bindE (for_each pubmed_article (echildren tree)) (\<lambda>ds. Inr (PList ds)))"

section \<open>Tool dispatch\<close>

subsection \<open>The cache and the doc store\<close>

text \<open>
  The cache is a \<^verbatim>\<open>defaultdict(list)\<close> from tool names to the records of the calls made:
  a missing key reads as the empty list, and appending under a missing key adds the
  key at the end.
\<close>

type_synonym cache = "(string \<times> string list) list"

definition cache_get :: "cache \<Rightarrow> string \<Rightarrow> string list" where
  "cache_get c k = (case map_of c k of None \<Rightarrow> [] | Some vs \<Rightarrow> vs)"

definition cache_append :: "cache \<Rightarrow> string \<Rightarrow> string \<Rightarrow> cache" where
  "cache_append c k v = AList.update k (cache_get c k @ [v]) c"

type_synonym embedding = "rat list"

record result_record =
  rr_task_id_counter :: int
  rr_vectorized_data :: embedding
  rr_output :: string
  rr_metadata :: pyval

text \<open>
  The entry of a task in \<^verbatim>\<open>doc_store["tasks"]\<close>; a field that is \<open>None\<close> is a key the
  dictionary does not have.
\<close>

record task_doc =
  executive_summary :: "string option"
  result_code :: "string option"
  results :: "result_record list option"

record doc_store =
  key_results :: "(string \<times> string) list option"
  tasks :: "(string \<times> task_doc) list"

subsection \<open>\<^verbatim>\<open>execute_python\<close>\<close>

text \<open>
  What \<^verbatim>\<open>exec(code, globals(), loc)\<close> does is the interpreter's and the remote service's;
  the model takes it as the parameter \<open>exec_py\<close>, from the code to one of three
  outcomes: an \<^verbatim>\<open>Exception\<close> (which \<^verbatim>\<open>execute_python\<close> catches), an exception outside that
  class (which it does not catch), or the local bindings \<open>loc\<close> the code leaves.
\<close>

datatype exec_outcome =
    Raises_Exception
  | Raises_Other
  | Binds "(string \<times> pyval) list"

definition execute_python :: "(string \<Rightarrow> exec_outcome) \<Rightarrow> string \<Rightarrow> pyerr + pyval" where
  "execute_python exec_py code =
     (case exec_py code of
        Raises_Exception \<Rightarrow> Inr PNone
      | Raises_Other \<Rightarrow> Inl BaseException
      | Binds loc \<Rightarrow>
          (case map_of loc ''ret'' of None \<Rightarrow> Inl (KeyError ''ret'') | Some v \<Rightarrow> Inr v))"

subsection \<open>\<^verbatim>\<open>handle_python_result\<close>\<close>

text \<open>\<^verbatim>\<open>sub in s\<close> on strings.\<close>

fun str_contains :: "string \<Rightarrow> string \<Rightarrow> bool" where
  "str_contains sub [] = (sub = [])"
| "str_contains sub (c # cs) = (take (length sub) (c # cs) = sub \<or> str_contains sub cs)"

text \<open>\<^verbatim>\<open>task.split(":")[0]\<close>\<close>

definition tool_of :: "string \<Rightarrow> string" where
  "tool_of task = takeWhile (\<lambda>c. c \<noteq> CHR '':'') task"

definition wrap_code :: "string \<Rightarrow> string \<Rightarrow> string" where
  "wrap_code tool result =
     (if tool = ''MYGENE'' then
        ''from api.mygene_wrapper import mygene_wrapper\<newline>'' @ result
        @ ''\<newline>ret = mygene_wrapper(query_term, size, from_)''
      else if tool = ''MYVARIANT'' then
        ''from api.myvariant_wrapper import myvariant_wrapper\<newline>'' @ result
        @ ''\<newline>ret = myvariant_wrapper(query_term)''
      else if tool = ''PUBMED'' then
        ''from api.pubmed_wrapper import pubmed_wrapper\<newline>'' @ result
        @ ''\<newline>ret = pubmed_wrapper(query_term, retmax, retstart)''
      else result)"

text \<open>The three records a call can leave in the cache.\<close>

definition success_record :: "string \<Rightarrow> string" where
  "success_record params = ''---\<newline>'' @ params @ ''---\<newline>''"

definition no_results_record :: "string \<Rightarrow> string" where
  "no_results_record params =
     ''---\<newline>Note: This call returned no results\<newline>'' @ params @ ''---\<newline>''"

definition failure_record :: "string \<Rightarrow> string" where
  "failure_record params =
     ''---\<newline>Note: This call did not run succesfully\<newline>'' @ params @ ''---\<newline>''"

text \<open>
  One of the three blocks \<^verbatim>\<open>if "TAG" in task:\<close>. It appends to the cache and then calls
  the processor of the tool on \<^verbatim>\<open>executed_result\<close>, whatever that is. The state is the
  cache and \<^verbatim>\<open>processed_result\<close> (\<open>None\<close> while the variable is unbound); an
  exception of the processor leaves the function with the cache as it then is.
\<close>

definition tool_block ::
  "string \<Rightarrow> string \<Rightarrow> string \<Rightarrow> (pyval \<Rightarrow> pyerr + pyval) \<Rightarrow> pyval
     \<Rightarrow> cache \<times> pyval option \<Rightarrow> pyerr \<times> cache + cache \<times> pyval option" where
  "tool_block task tag entry process executed_result st =
     (if str_contains tag task then
        (let c = cache_append (fst st) tag entry
         in case process executed_result of
              Inl e \<Rightarrow> Inl (e, c)
            | Inr p \<Rightarrow> Inr (c, Some p))
      else Inr st)"

definition bindC ::
  "pyerr \<times> cache + cache \<times> pyval option
     \<Rightarrow> (cache \<times> pyval option \<Rightarrow> pyerr \<times> cache + cache \<times> pyval option)
     \<Rightarrow> pyerr \<times> cache + cache \<times> pyval option" where
  "bindC m f = (case m of Inl e \<Rightarrow> Inl e | Inr st \<Rightarrow> f st)"

text \<open>The appends of the branch \<^verbatim>\<open>if executed_result is None:\<close>, in the source's order.\<close>

definition failure_appends :: "string \<Rightarrow> string \<Rightarrow> cache \<Rightarrow> cache" where
  "failure_appends task params c =
     (let c1 = (if str_contains ''MYGENE'' task
                then cache_append c ''MYGENE'' (failure_record params) else c);
          c2 = (if str_contains ''PUBMED'' task
                then cache_append c1 ''PUBMED'' (failure_record params) else c1)
      in if str_contains ''MYVARIANT'' task
         then cache_append c2 ''MYVARIANT'' (failure_record params) else c2)"

text \<open>
  The function mutates \<open>cache\<close> and \<open>doc_store\<close>, so the model returns both with the
  outcome: the value returned (\<^verbatim>\<open>None\<close> is \<open>PNone\<close>) or the exception raised.
\<close>

definition handle_python_result ::
  "(pyval \<Rightarrow> string) \<Rightarrow> (string \<Rightarrow> xml option) \<Rightarrow> (string \<Rightarrow> exec_outcome)
     \<Rightarrow> string \<Rightarrow> cache \<Rightarrow> string \<Rightarrow> doc_store \<Rightarrow> string
     \<Rightarrow> (pyerr + pyval) \<times> cache \<times> doc_store" where
  "handle_python_result R parse exec_py result cache task doc_store doc_store_task_key =
     (case map_of (tasks doc_store) doc_store_task_key of
        None \<Rightarrow> (Inl (KeyError doc_store_task_key), cache, doc_store)
      | Some d \<Rightarrow>
          (let params = result;
               doc_store' = doc_store\<lparr>tasks :=
                 AList.update doc_store_task_key (d\<lparr>result_code := Some result\<rparr>) (tasks doc_store)\<rparr>
           in case execute_python exec_py (wrap_code (tool_of task) result) of
                Inl e \<Rightarrow> (Inl e, cache, doc_store')
              | Inr executed \<Rightarrow>
                  (let executed_result =
                         (case executed of PList xs \<Rightarrow> PList (filter truthy xs) | v \<Rightarrow> v);
                       results_returned = \<not> (executed_result \<noteq> PNone \<and> \<not> truthy executed_result);
                       entry = (if results_returned then success_record params
                                 else no_results_record params)
                   in case bindC (bindC
                             (tool_block task ''MYVARIANT'' entry (process_myvariant_result R)
                                executed_result (cache, None))
                             (tool_block task ''MYGENE'' entry (process_mygene_result R)
                                executed_result))
                             (tool_block task ''PUBMED'' entry (process_pubmed_result parse)
                                executed_result) of
                        Inl (e, c) \<Rightarrow> (Inl e, c, doc_store')
                      | Inr (c, processed_result) \<Rightarrow>
                          if executed_result = PNone then
                            (Inr PNone, failure_appends task params c, doc_store')
                          else
                            (case processed_result of
                               None \<Rightarrow> (Inl UnboundLocalError, c, doc_store')
                             | Some p \<Rightarrow> (Inr p, c, doc_store')))))"

section \<open>Knowledge store\<close>

text \<open>
  A document of the index, and the index as the list of the documents inserted into
  it (\<^verbatim>\<open>index.docstore.docs\<close> is empty exactly when the list is).
\<close>

record document =
  doc_id :: string
  doc_text :: string
  doc_embedding :: embedding
  doc_metadata :: pyval

type_synonym index = "document list"

subsection \<open>\<^verbatim>\<open>get_ada_embedding\<close> and \<^verbatim>\<open>insert_doc_llama_index\<close>\<close>

text \<open>
  The tokenizer and the embedding service are parameters: \<open>num_tokens\<close> counts the
  tokens of a text, and \<open>embedding_create t n\<close> is what the \<open>n\<close>-th request
  \<^verbatim>\<open>openai.Embedding.create\<close> of a call does: it returns a vector or raises. The
  function has no retry decorator, so a call makes the request once; two calls on the
  same text are answered alike. \<open>ada_text\<close> is the
  text of that request: the newlines become spaces, and a text of more than 8191
  tokens is cut to its first 8191 characters.
\<close>

definition ada_text :: "(string \<Rightarrow> nat) \<Rightarrow> string \<Rightarrow> string" where
  "ada_text num_tokens txt =
     (let ada_embedding_max_size = 8191;
          t1 = map (\<lambda>c. if c = CHR 0x0A then CHR '' '' else c) txt
      in if num_tokens t1 > ada_embedding_max_size then take ada_embedding_max_size t1 else t1)"

definition get_ada_embedding ::
  "(string \<Rightarrow> nat) \<Rightarrow> (string \<Rightarrow> nat \<Rightarrow> openai_error + embedding) \<Rightarrow> string
     \<Rightarrow> pyerr + embedding" where
  "get_ada_embedding num_tokens embedding_create txt =
     (case embedding_create (ada_text num_tokens txt) 0 of
        Inl e \<Rightarrow> Inl (OpenAI e)
      | Inr v \<Rightarrow> Inr v)"

text \<open>
  What \<^verbatim>\<open>index.insert\<close> does to the index is the library's; it is the parameter
  \<open>index_insert\<close>. The model returns the new index together with the document that
  was handed to \<^verbatim>\<open>index.insert\<close>, and beside them the texts of the embedding requests
  the call made: one when no embedding was supplied, that is when \<^verbatim>\<open>not embedding\<close>
  holds, and none otherwise.
\<close>

definition insert_doc_llama_index ::
  "(index \<Rightarrow> document \<Rightarrow> index) \<Rightarrow> (string \<Rightarrow> nat)
     \<Rightarrow> (string \<Rightarrow> nat \<Rightarrow> openai_error + embedding) \<Rightarrow> index \<Rightarrow> string \<Rightarrow> string \<Rightarrow> pyval
     \<Rightarrow> embedding \<Rightarrow> (pyerr + index \<times> document) \<times> string list" where
  "insert_doc_llama_index index_insert num_tokens embedding_create idx did data meta emb =
     (bindE (if emb = [] then get_ada_embedding num_tokens embedding_create data else Inr emb)
        (\<lambda>e. let doc = \<lparr>doc_id = did, doc_text = data, doc_embedding = e, doc_metadata = meta\<rparr>
             in Inr (index_insert idx doc, doc)),
      if emb = [] then [ada_text num_tokens data] else [])"

subsection \<open>\<^verbatim>\<open>handle_results\<close>\<close>

text \<open>Iteration (\<^verbatim>\<open>for x in v\<close>) and subscripting with a non-negative index (\<^verbatim>\<open>v[i]\<close>).\<close>

fun py_iter :: "pyval \<Rightarrow> pyerr + pyval list" where
  "py_iter (PList xs) = Inr xs"
| "py_iter (PTuple xs) = Inr xs"
| "py_iter (PStr s) = Inr (map (\<lambda>c. PStr [c]) s)"
| "py_iter (PDict kvs) = Inr (map (\<lambda>kv. PStr (fst kv)) kvs)"
| "py_iter _ = Inl TypeError"

fun py_index :: "pyval \<Rightarrow> nat \<Rightarrow> pyerr + pyval" where
  "py_index (PList xs) i = (if i < length xs then Inr (xs ! i) else Inl IndexError)"
| "py_index (PTuple xs) i = (if i < length xs then Inr (xs ! i) else Inl IndexError)"
| "py_index (PStr s) i = (if i < length s then Inr (PStr [s ! i]) else Inl IndexError)"
| "py_index (PDict kvs) i = Inl (KeyError (dec_nat i))"
| "py_index _ i = Inl TypeError"

text \<open>\<^verbatim>\<open>s[:n]\<close>: a negative \<open>n\<close> counts from the end of the string.\<close>

definition py_slice_to :: "string \<Rightarrow> int \<Rightarrow> string" where
  "py_slice_to s n = (if 0 \<le> n then take (nat n) s else take (length s - nat (- n)) s)"

text \<open>
  \<^verbatim>\<open>doc_store["tasks"][doc_store_key]["results"].append(entry)\<close>: a missing key raises
  \<^verbatim>\<open>KeyError\<close>.
\<close>

definition append_result :: "doc_store \<Rightarrow> string \<Rightarrow> result_record \<Rightarrow> pyerr + doc_store" where
  "append_result ds k entry =
     (case map_of (tasks ds) k of
        None \<Rightarrow> Inl (KeyError k)
      | Some d \<Rightarrow>
          (case results d of
             None \<Rightarrow> Inl (KeyError ''results'')
           | Some rs \<Rightarrow>
               Inr (ds\<lparr>tasks := AList.update k (d\<lparr>results := Some (rs @ [entry])\<rparr>) (tasks ds)\<rparr>)))"

text \<open>\<^verbatim>\<open>doc_store["tasks"][k]["results"]\<close>, read as the empty list where a key is missing.\<close>

definition task_results :: "doc_store \<Rightarrow> string \<Rightarrow> result_record list" where
  "task_results ds k =
     (case map_of (tasks ds) k of
        None \<Rightarrow> []
      | Some d \<Rightarrow> (case results d of None \<Rightarrow> [] | Some rs \<Rightarrow> rs))"

text \<open>
  What a run of \<^verbatim>\<open>handle_results\<close> leaves behind. The index and the doc store are
  mutated in place, so an exception leaves them as they are at that moment: the
  model returns the exception, if any, with both. It also records, in order, the
  texts of the embedding requests made and the documents handed to \<^verbatim>\<open>index.insert\<close>.
\<close>

record handled =
  h_error :: "pyerr option"
  h_index :: index
  h_doc_store :: doc_store
  h_requests :: "string list"
  h_inserted :: "document list"

text \<open>The body of the loop for the item \<open>r\<close> at position \<open>i\<close>.\<close>

definition handle_result ::
  "(pyval \<Rightarrow> string) \<Rightarrow> (string \<Rightarrow> nat) \<Rightarrow> (string \<Rightarrow> nat \<Rightarrow> openai_error + embedding)
     \<Rightarrow> (index \<Rightarrow> document \<Rightarrow> index) \<Rightarrow> string \<Rightarrow> int \<Rightarrow> int
     \<Rightarrow> nat \<Rightarrow> pyval \<Rightarrow> handled \<Rightarrow> handled" where
  "handle_result R num_tokens embedding_create index_insert doc_store_key task_id_counter
       RESULT_CUTOFF i r st =
     (case py_index r 0 of
        Inl e \<Rightarrow> st\<lparr>h_error := Some e\<rparr>
      | Inr res0 \<Rightarrow>
     (case py_index r 1 of
        Inl e \<Rightarrow> st\<lparr>h_error := Some e\<rparr>
      | Inr meta \<Rightarrow>
     (let res = py_slice_to (py_str R res0) RESULT_CUTOFF;
          st1 = st\<lparr>h_requests := h_requests st @ [ada_text num_tokens res]\<rparr>
      in case get_ada_embedding num_tokens embedding_create res of
        Inl e \<Rightarrow> st1\<lparr>h_error := Some e\<rparr>
      | Inr vectorized_data \<Rightarrow>
     (let task_id = ''doc_id_'' @ str_of_int task_id_counter @ ''_'' @ dec_nat i
      in case insert_doc_llama_index index_insert num_tokens embedding_create (h_index st1)
                task_id res meta vectorized_data of
        (Inl e, requests) \<Rightarrow>
          st1\<lparr>h_requests := h_requests st1 @ requests, h_error := Some e\<rparr>
      | (Inr (idx, doc), requests) \<Rightarrow>
     (let st2 = st1\<lparr>h_requests := h_requests st1 @ requests, h_index := idx,
                   h_inserted := h_inserted st1 @ [doc]\<rparr>
      in case append_result (h_doc_store st2) doc_store_key
             \<lparr>rr_task_id_counter = task_id_counter, rr_vectorized_data = vectorized_data,
              rr_output = res, rr_metadata = meta\<rparr> of
        Inl e \<Rightarrow> st2\<lparr>h_error := Some e\<rparr>
      | Inr ds \<Rightarrow> st2\<lparr>h_doc_store := ds\<rparr>)))))"

fun handle_loop ::
  "(pyval \<Rightarrow> string) \<Rightarrow> (string \<Rightarrow> nat) \<Rightarrow> (string \<Rightarrow> nat \<Rightarrow> openai_error + embedding)
     \<Rightarrow> (index \<Rightarrow> document \<Rightarrow> index) \<Rightarrow> string \<Rightarrow> int \<Rightarrow> int
     \<Rightarrow> nat \<Rightarrow> pyval list \<Rightarrow> handled \<Rightarrow> handled" where
  "handle_loop R num_tokens embedding_create index_insert k c cutoff i [] st = st"
| "handle_loop R num_tokens embedding_create index_insert k c cutoff i (r # rs) st =
     (let st' = handle_result R num_tokens embedding_create index_insert k c cutoff i r st
      in case h_error st' of
           Some e \<Rightarrow> st'
         | None \<Rightarrow>
             handle_loop R num_tokens embedding_create index_insert k c cutoff (Suc i) rs st')"

definition handle_results ::
  "(pyval \<Rightarrow> string) \<Rightarrow> (string \<Rightarrow> nat) \<Rightarrow> (string \<Rightarrow> nat \<Rightarrow> openai_error + embedding)
     \<Rightarrow> (index \<Rightarrow> document \<Rightarrow> index) \<Rightarrow> pyval \<Rightarrow> index
     \<Rightarrow> doc_store \<Rightarrow> string \<Rightarrow> int \<Rightarrow> int \<Rightarrow> handled" where
  "handle_results R num_tokens embedding_create index_insert result idx doc_store doc_store_key
       task_id_counter RESULT_CUTOFF =
     (case py_iter result of
        Inl e \<Rightarrow>
          \<lparr>h_error = Some e, h_index = idx, h_doc_store = doc_store, h_requests = [],
           h_inserted = []\<rparr>
      | Inr items \<Rightarrow>
          handle_loop R num_tokens embedding_create index_insert doc_store_key task_id_counter
            RESULT_CUTOFF 0 items
            \<lparr>h_error = None, h_index = idx, h_doc_store = doc_store, h_requests = [],
             h_inserted = []\<rparr>)"

subsection \<open>\<^verbatim>\<open>query_knowledge_base\<close> and \<^verbatim>\<open>get_key_results\<close>\<close>

text \<open>
  The two requests the function can make: \<^verbatim>\<open>index.query(query, response_mode="default")\<close>
  and \<^verbatim>\<open>query_engine.query(query)\<close> over a retriever with \<^verbatim>\<open>similarity_top_k=top_k\<close>.
  Retrieval, embedding and the language model stand behind both; they are the
  parameter \<open>service\<close>, which answers a request on an index or raises. The model
  returns, with the outcome, the list of the requests made. The source never reads
  its parameter \<^verbatim>\<open>response_mode\<close>.
\<close>

datatype service_call =
    Index_Query string
  | Engine_Query string nat

record query_response =
  qr_response :: "string option"
  qr_metadata :: "(string \<times> pyval) list option"

fun get_all :: "string \<Rightarrow> pyval list \<Rightarrow> pyerr + pyval list" where
  "get_all k [] = Inr []"
| "get_all k (x # xs) =
     bindE (py_get x k PNone) (\<lambda>v. bindE (get_all k xs) (\<lambda>vs. Inr (v # vs)))"

text \<open>
  \<^verbatim>\<open>extra_info\<close> starts as the empty string; the list comprehension runs under
  \<^verbatim>\<open>try ... except Exception\<close>, so an exception in it leaves the empty string.
\<close>

definition extra_info :: "query_response \<Rightarrow> pyval" where
  "extra_info qr =
     (case qr_metadata qr of
        None \<Rightarrow> PStr []
      | Some kvs \<Rightarrow>
          if kvs = [] then PStr []
          else (case get_all ''citation_data'' (map snd kvs) of
                  Inl e \<Rightarrow> PStr []
                | Inr cs \<Rightarrow> if list_ex truthy cs then PList cs else PList []))"

definition query_knowledge_base ::
  "(index \<Rightarrow> service_call \<Rightarrow> pyerr + query_response) \<Rightarrow> index \<Rightarrow> string \<Rightarrow> string \<Rightarrow> nat \<Rightarrow> bool
     \<Rightarrow> (pyerr + pyval) \<times> service_call list" where
  "query_knowledge_base service idx query response_mode top_k list_index =
     (if idx = [] then (Inr PNone, [])
      else
        (let call = (if list_index then Index_Query query else Engine_Query query top_k)
         in case service idx call of
              Inl e \<Rightarrow> (Inl e, [call])
            | Inr qr \<Rightarrow>
                (bindE (py_join ''\<newline>\<newline>'' (extra_info qr)) (\<lambda>joined.
                   Inr (PTuple [case qr_response qr of None \<Rightarrow> PNone | Some t \<Rightarrow> PStr t,
                                PStr joined])),
                 [call])))"

definition key_queries :: "string \<Rightarrow> string list" where
  "key_queries objective =
     [''Give a brief high level summary of all the data.'',
      ''Briefly list all the main points that the data covers.'',
      ''Generate several creative hypotheses given the data.'',
      ''What are some high level research directions to explore further given the data?'',
      ''Do your best to answer the objective: '' @ objective @ '' given the information.'']"

text \<open>
  One turn of the loop over the queries: every exception of the query is caught, and
  a result is appended only when the answer is a non-empty text. \<^verbatim>\<open>markdown.markdown\<close>
  is the parameter \<open>markdown\<close>. The source never reads the parameter
  \<^verbatim>\<open>additional_queries\<close> of \<^verbatim>\<open>get_key_results\<close>, so the model leaves it out.
\<close>

definition key_result ::
  "(index \<Rightarrow> service_call \<Rightarrow> pyerr + query_response) \<Rightarrow> (string \<Rightarrow> string) \<Rightarrow> index \<Rightarrow> nat
     \<Rightarrow> string \<Rightarrow> (string \<times> string) list \<times> service_call list" where
  "key_result service markdown idx top_k query =
     (case query_knowledge_base service idx query ''tree_summarize'' top_k False of
        (Inr (PTuple [PStr res, PStr citation_data]), calls) \<Rightarrow>
          (if res \<noteq> [] then
             [(''## '' @ query @ ''\<newline>\<newline>'',
               markdown res @ ''\<newline>\<newline>### Citations\<newline>\<newline>''
               @ markdown citation_data @ ''\<newline>\<newline>'')]
           else [], calls)
      | (_, calls) \<Rightarrow> ([], calls))"

fun key_results_loop ::
  "(index \<Rightarrow> service_call \<Rightarrow> pyerr + query_response) \<Rightarrow> (string \<Rightarrow> string) \<Rightarrow> index \<Rightarrow> nat
     \<Rightarrow> string list \<Rightarrow> (string \<times> string) list \<times> service_call list" where
  "key_results_loop service markdown idx top_k [] = ([], [])"
| "key_results_loop service markdown idx top_k (q # qs) =
     (let (r, calls) = key_result service markdown idx top_k q;
          (rs, calls') = key_results_loop service markdown idx top_k qs
      in (r @ rs, calls @ calls'))"

definition get_key_results ::
  "(index \<Rightarrow> service_call \<Rightarrow> pyerr + query_response) \<Rightarrow> (string \<Rightarrow> string) \<Rightarrow> index \<Rightarrow> string
     \<Rightarrow> nat \<Rightarrow> (string \<times> string) list \<times> service_call list" where
  "get_key_results service markdown idx objective top_k =
     (if idx = [] then ([], [])
      else key_results_loop service markdown idx top_k (key_queries objective))"

section \<open>Retry policy of the completion calls\<close>

text \<open>The tuple of classes both decorators name.\<close>

fun retry_on :: "openai_error \<Rightarrow> bool" where
  "retry_on RateLimitError = True"
| "retry_on APIError = True"
| "retry_on APIConnectionError = True"
| "retry_on ServiceUnavailableError = True"
| "retry_on Timeout = True"
| "retry_on _ = False"

text \<open>An attempt that makes the decorator try again.\<close>

definition retryable :: "openai_error + 'a \<Rightarrow> bool" where
  "retryable x = (case x of Inl e \<Rightarrow> retry_on e | Inr v \<Rightarrow> False)"

text \<open>
  \<^verbatim>\<open>partial(backoff.expo, max_value=50)\<close>: the \<open>n\<close>-th value of the wait generator, in
  seconds, with the library's base 2 and factor 1. The library's jitter then draws
  the sleep between 0 and this value.
\<close>

definition expo :: "nat \<Rightarrow> nat" where
  "expo n = min (2 ^ n) 50"

text \<open>
  \<^verbatim>\<open>backoff.on_exception\<close> with no \<^verbatim>\<open>max_tries\<close>, \<^verbatim>\<open>max_time\<close> or \<^verbatim>\<open>giveup\<close>: the loop
  calls the target until it returns or raises outside the listed classes. \<open>target n\<close> is
  what the \<open>n\<close>-th call of the decorated function does. The loop need not end, so the
  result is an option; it comes with the waits drawn so far.
\<close>

partial_function (option) on_exception ::
  "(nat \<Rightarrow> openai_error + 'a) \<Rightarrow> nat \<Rightarrow> nat list \<Rightarrow> ((openai_error + 'a) \<times> nat list) option" where
  "on_exception target n waits =
     (case target n of
        Inr v \<Rightarrow> Some (Inr v, waits)
      | Inl e \<Rightarrow>
          if retry_on e then on_exception target (Suc n) (waits @ [expo n])
          else Some (Inl e, waits))"

record completion_request =
  cr_engine :: string
  cr_prompt :: string
  cr_temperature :: rat
  cr_max_tokens :: int
  cr_top_p :: rat
  cr_frequency_penalty :: rat
  cr_presence_penalty :: rat

record chat_request =
  ch_model :: string
  ch_messages :: "(string \<times> string) list"
  ch_temperature :: rat

definition MAX_TOKENS :: int where
  "MAX_TOKENS = 4097"

definition get_max_completion_len :: "(string \<Rightarrow> nat) \<Rightarrow> string \<Rightarrow> int" where
  "get_max_completion_len num_tokens prompt = MAX_TOKENS - int (num_tokens prompt)"

text \<open>
  The services are parameters: \<open>completion_create req n\<close> is what the \<open>n\<close>-th request
  \<^verbatim>\<open>openai.Completion.create\<close> of a call does, the text of the first choice or an
  exception; likewise \<open>chat_create\<close> for \<^verbatim>\<open>openai.ChatCompletion.create\<close>.
\<close>

definition completion_args ::
  "(string \<Rightarrow> nat) \<Rightarrow> string \<Rightarrow> rat \<Rightarrow> string \<Rightarrow> rat \<Rightarrow> rat \<Rightarrow> rat \<Rightarrow> completion_request" where
  "completion_args num_tokens prompt temp engine top_p frequency_penalty presence_penalty =
     \<lparr>cr_engine = engine, cr_prompt = prompt, cr_temperature = temp,
      cr_max_tokens = get_max_completion_len num_tokens prompt, cr_top_p = top_p,
      cr_frequency_penalty = frequency_penalty, cr_presence_penalty = presence_penalty\<rparr>"

definition get_gpt_completion ::
  "(completion_request \<Rightarrow> nat \<Rightarrow> openai_error + string) \<Rightarrow> (string \<Rightarrow> nat) \<Rightarrow> string \<Rightarrow> rat
     \<Rightarrow> string \<Rightarrow> rat \<Rightarrow> rat \<Rightarrow> rat \<Rightarrow> ((openai_error + string) \<times> nat list) option" where
  "get_gpt_completion completion_create num_tokens prompt temp engine top_p frequency_penalty
       presence_penalty =
     on_exception
       (\<lambda>n. map_sum id py_strip
          (completion_create
             (completion_args num_tokens prompt temp engine top_p frequency_penalty
                presence_penalty) n))
       0 []"

definition chat_args :: "string \<Rightarrow> string \<Rightarrow> string \<Rightarrow> rat \<Rightarrow> chat_request" where
  "chat_args system_prompt user_prompt model temp =
     \<lparr>ch_model = model,
      ch_messages = [(''system'', system_prompt), (''user'', user_prompt)],
      ch_temperature = temp\<rparr>"

definition get_gpt_chat_completion ::
  "(chat_request \<Rightarrow> nat \<Rightarrow> openai_error + string) \<Rightarrow> string \<Rightarrow> string \<Rightarrow> string \<Rightarrow> rat
     \<Rightarrow> ((openai_error + string) \<times> nat list) option" where
  "get_gpt_chat_completion chat_create system_prompt user_prompt model temp =
     on_exception
       (\<lambda>n. map_sum id py_strip (chat_create (chat_args system_prompt user_prompt model temp) n))
       0 []"

section \<open>Session state: \<^verbatim>\<open>save\<close> and \<^verbatim>\<open>load\<close>\<close>

subsection \<open>Files and paths\<close>

text \<open>
  The file system is a map from paths to file contents. A file holds a text, or the
  JSON text of a value (kept as the value \<^verbatim>\<open>json.load\<close> reads back from it), or the
  snapshot \<^verbatim>\<open>index.storage_context.persist\<close> leaves; text appended to a file that is
  not a text leaves a file nothing can read. The model covers the runs in which the
  operating system refuses no operation.
\<close>

datatype file_content = Text string | Json pyval | Index_Snapshot index | Garbled

type_synonym filesystem = "string \<Rightarrow> file_content option"

text \<open>\<^verbatim>\<open>write_file(path, contents)\<close> with its default mode \<^verbatim>\<open>"w"\<close>, and with mode \<^verbatim>\<open>"a+"\<close>.\<close>

definition write_file :: "filesystem \<Rightarrow> string \<Rightarrow> string \<Rightarrow> filesystem" where
  "write_file fs path contents = fs(path \<mapsto> Text contents)"

definition append_file :: "filesystem \<Rightarrow> string \<Rightarrow> string \<Rightarrow> filesystem" where
  "append_file fs path contents =
     fs(path \<mapsto> (case fs path of
                    None \<Rightarrow> Text contents
                  | Some (Text old) \<Rightarrow> Text (old @ contents)
                  | Some _ \<Rightarrow> Garbled))"

text \<open>\<^verbatim>\<open>os.path.join(a, b)\<close> on POSIX.\<close>

definition path_join :: "string \<Rightarrow> string \<Rightarrow> string" where
  "path_join a b =
     (if b \<noteq> [] \<and> hd b = CHR ''/'' then b
      else if a = [] \<or> last a = CHR ''/'' then a @ b
      else a @ ''/'' @ b)"

text \<open>
  \<^verbatim>\<open>sanitize_dir_name\<close>: the characters of the class \<^verbatim>\<open>[<>:"/\|?*]\<close> and the space
  become underscores, and one leading period is removed.
\<close>

definition sanitize_dir_name :: "string \<Rightarrow> string" where
  "sanitize_dir_name dir_name =
     (let d1 = map (\<lambda>c. if c \<in> set ''<>:/|?*'' \<or> c = CHR 0x22 then CHR ''_'' else c) dir_name;
          d2 = map (\<lambda>c. if c = CHR '' '' then CHR ''_'' else c) d1
      in case d2 of [] \<Rightarrow> [] | c # cs \<Rightarrow> if c = CHR ''.'' then cs else c # cs)"

definition session_path :: "string \<Rightarrow> string \<Rightarrow> string" where
  "session_path OBJECTIVE current_datetime =
     path_join ''./out'' (sanitize_dir_name OBJECTIVE @ ''_'' @ current_datetime)"

subsection \<open>JSON\<close>

text \<open>
  The value \<^verbatim>\<open>json.load\<close> reads from what \<^verbatim>\<open>json.dump\<close> wrote: a tuple comes back as a
  list, everything else as it was.
\<close>

fun json_norm :: "pyval \<Rightarrow> pyval" where
  "json_norm (PTuple xs) = PList (map json_norm xs)"
| "json_norm (PList xs) = PList (map json_norm xs)"
| "json_norm (PDict kvs) = PDict (map (map_prod id json_norm) kvs)"
| "json_norm v = v"

subsection \<open>\<^verbatim>\<open>save\<close>\<close>

text \<open>The session state the claims are about, with the types the code gives its parts.\<close>

record session =
  s_objective :: string
  s_current_datetime :: string
  s_task_id_counter :: int
  s_task_list :: "string list"
  s_completed_tasks :: pyval
  s_cache :: cache
  s_reload_count :: int
  s_summaries :: pyval

definition cache_value :: "cache \<Rightarrow> pyval" where
  "cache_value c = PDict (map (\<lambda>kv. (fst kv, PList (map PStr (snd kv)))) c)"

definition state_dict :: "session \<Rightarrow> pyval" where
  "state_dict s =
     PDict [(''summaries'', s_summaries s),
            (''reload_count'', PInt (s_reload_count s)),
            (''task_id_counter'', PInt (s_task_id_counter s)),
            (''task_list'', PList (map PStr (s_task_list s))),
            (''completed_tasks'', s_completed_tasks s),
            (''cache'', cache_value (s_cache s)),
            (''current_datetime'', PStr (s_current_datetime s)),
            (''objective'', PStr (s_objective s))]"

text \<open>
  The key findings file: the header, then one append for each key result. \<open>new_time\<close>
  is the clock reading \<^verbatim>\<open>time.strftime\<close> gives.
\<close>

definition save_key_results ::
  "string \<Rightarrow> session \<Rightarrow> string \<Rightarrow> (string \<times> string) list \<Rightarrow> filesystem \<Rightarrow> filesystem" where
  "save_key_results new_time s path krs fs =
     (let header = ''# '' @ s_objective s @ ''\<newline>Date: ''
                   @ (if s_reload_count s \<noteq> 0 then new_time else s_current_datetime s)
                   @ ''\<newline>\<newline>'';
          key_findings_path =
            path_join path (''key_findings_'' @ str_of_int (s_reload_count s) @ ''.md'')
      in fold (\<lambda>res f. append_file f key_findings_path (fst res @ snd res)) krs
           (append_file fs key_findings_path header))"

text \<open>The two files of the \<open>i\<close>-th result of a task.\<close>

fun save_results ::
  "(pyval \<Rightarrow> string) \<Rightarrow> string \<Rightarrow> nat \<Rightarrow> result_record list \<Rightarrow> filesystem \<Rightarrow> filesystem" where
  "save_results R result_path i [] fs = fs"
| "save_results R result_path i (r # rs) fs =
     (let result_path_i = path_join result_path (dec_nat i);
          fs1 = write_file fs (path_join result_path_i ''output.txt'') (rr_output r);
          fs2 = write_file fs1 (path_join result_path_i ''vector.txt'')
                  (R (PList (map PFloat (rr_vectorized_data r))))
      in save_results R result_path (Suc i) rs fs2)"

text \<open>
  The loop over \<^verbatim>\<open>doc_store["tasks"].items()\<close>; \<^verbatim>\<open>doc["results"]\<close> raises \<^verbatim>\<open>KeyError\<close> on
  an entry without results, after the files written so far.
\<close>

fun save_tasks ::
  "(pyval \<Rightarrow> string) \<Rightarrow> string \<Rightarrow> (string \<times> task_doc) list \<Rightarrow> filesystem
     \<Rightarrow> pyerr option \<times> filesystem" where
  "save_tasks R path [] fs = (None, fs)"
| "save_tasks R path ((task, doc) # rest) fs =
     (let doc_path = path_join path task;
          result_path = path_join doc_path ''results'';
          fs1 = (case executive_summary doc of
                   None \<Rightarrow> fs
                 | Some t \<Rightarrow> write_file fs (path_join result_path ''executive_summary.txt'') t);
          fs2 = (case result_code doc of
                   None \<Rightarrow> fs1
                 | Some t \<Rightarrow> write_file fs1 (path_join result_path ''api_call.txt'') t)
      in case results doc of
           None \<Rightarrow> (Some (KeyError ''results''), fs2)
         | Some rs \<Rightarrow> save_tasks R path rest (save_results R result_path 0 rs fs2))"

text \<open>
  \<^verbatim>\<open>save\<close> writes the index snapshot, then \<^verbatim>\<open>state.json\<close>, then the key findings and the
  files of the tasks. It returns nothing; the model returns the exception, if any,
  and the file system it leaves.
\<close>

definition save ::
  "(pyval \<Rightarrow> string) \<Rightarrow> string \<Rightarrow> filesystem \<Rightarrow> index \<Rightarrow> doc_store \<Rightarrow> session
     \<Rightarrow> pyerr option \<times> filesystem" where
  "save R new_time fs idx doc_store s =
     (let path = session_path (s_objective s) (s_current_datetime s);
          fs1 = fs(path_join path ''index.json'' \<mapsto> Index_Snapshot idx);
          fs2 = fs1(path_join path ''state.json'' \<mapsto> Json (json_norm (state_dict s)));
          fs3 = (case key_results doc_store of
                   None \<Rightarrow> fs2
                 | Some krs \<Rightarrow> save_key_results new_time s path krs fs2)
      in save_tasks R path (tasks doc_store) fs3)"

subsection \<open>\<^verbatim>\<open>load\<close>\<close>

text \<open>What \<^verbatim>\<open>load\<close> returns; the values read from the file are Python values.\<close>

record loaded =
  l_index :: index
  l_task_id_counter :: pyval
  l_task_list :: "pyval list"
  l_completed_tasks :: pyval
  l_cache :: "(string \<times> pyval) list"
  l_current_datetime :: pyval
  l_objective :: pyval
  l_reload_count :: pyval
  l_summaries :: pyval

text \<open>
  \<^verbatim>\<open>json_data[key]\<close> inside the \<^verbatim>\<open>try\<close>: a missing key is reported with its name, and
  subscripting something that is not a dictionary is a \<^verbatim>\<open>TypeError\<close>, which the
  \<^verbatim>\<open>except KeyError\<close> does not catch.
\<close>

fun json_key :: "pyval \<Rightarrow> string \<Rightarrow> pyerr + pyval" where
  "json_key (PDict kvs) k = (case map_of kvs k of None \<Rightarrow> Inl (MissingKey k) | Some v \<Rightarrow> Inr v)"
| "json_key _ k = Inl TypeError"

text \<open>
  \<^verbatim>\<open>x + 1\<close>. On a float the sum is rounded; the model does not follow floating-point
  arithmetic.
\<close>

fun plus_one :: "pyval \<Rightarrow> pyerr + pyval" where
  "plus_one (PInt n) = Inr (PInt (n + 1))"
| "plus_one (PBool b) = Inr (PInt ((if b then 1 else 0) + 1))"
| "plus_one (PFloat r) = Inl Not_Modelled"
| "plus_one _ = Inl TypeError"

text \<open>
  \<^verbatim>\<open>defaultdict(list, x)\<close> for a decoded JSON value \<open>x\<close>. A dictionary gives its
  entries, an empty list or text gives none, and a value that cannot be iterated is
  a \<^verbatim>\<open>TypeError\<close>. A non-empty list or text is read as a sequence of pairs, which the
  model does not follow.
\<close>

fun as_cache :: "pyval \<Rightarrow> pyerr + (string \<times> pyval) list" where
  "as_cache (PDict kvs) = Inr kvs"
| "as_cache (PList []) = Inr []"
| "as_cache (PTuple []) = Inr []"
| "as_cache (PStr []) = Inr []"
| "as_cache (PList xs) = Inl Not_Modelled"
| "as_cache (PTuple xs) = Inl Not_Modelled"
| "as_cache (PStr s) = Inl Not_Modelled"
| "as_cache _ = Inl TypeError"

definition load :: "filesystem \<Rightarrow> string \<Rightarrow> pyerr + loaded" where
  "load fs path =
     (case fs (path_join path ''index.json'') of
        Some (Index_Snapshot idx) \<Rightarrow>
          (case fs (path_join path ''state.json'') of
             None \<Rightarrow> Inl UnboundLocalError
           | Some (Json json_data) \<Rightarrow>
               bindE (bindE (json_key json_data ''reload_count'') plus_one) (\<lambda>reload_count.
               bindE (json_key json_data ''task_id_counter'') (\<lambda>task_id_counter.
               bindE (json_key json_data ''task_list'') (\<lambda>task_list.
               bindE (json_key json_data ''completed_tasks'') (\<lambda>completed_tasks.
               bindE (bindE (json_key json_data ''cache'') as_cache) (\<lambda>cache.
               bindE (json_key json_data ''current_datetime'') (\<lambda>current_datetime.
               bindE (json_key json_data ''objective'') (\<lambda>objective.
               bindE (json_key json_data ''summaries'') (\<lambda>summaries.
               bindE (py_iter task_list) (\<lambda>queue.
               Inr \<lparr>l_index = idx, l_task_id_counter = task_id_counter, l_task_list = queue,
                    l_completed_tasks = completed_tasks, l_cache = cache,
                    l_current_datetime = current_datetime, l_objective = objective,
                    l_reload_count = reload_count, l_summaries = summaries\<rparr>)))))))))
           | Some _ \<Rightarrow> Inl JSONDecodeError)
      | _ \<Rightarrow> Inl FileNotFoundError)"

section \<open>Shapes of payloads\<close>

text \<open>
  The predicates the theorems below use to say which payloads they are about.
  A document is a pair of a text and a dictionary with the one key
  \<^verbatim>\<open>citation_data\<close>.
\<close>

fun is_doc :: "pyval \<Rightarrow> bool" where
  "is_doc (PTuple [PStr b, PDict [(k, PStr c)]]) = (k = ''citation_data'')"
| "is_doc _ = False"

fun is_dict :: "pyval \<Rightarrow> bool" where
  "is_dict (PDict kvs) = True"
| "is_dict _ = False"

fun is_str :: "pyval \<Rightarrow> bool" where
  "is_str (PStr s) = True"
| "is_str _ = False"

text \<open>The entry of a dictionary under a key, or the default.\<close>

fun field :: "pyval \<Rightarrow> string \<Rightarrow> pyval \<Rightarrow> pyval" where
  "field (PDict kvs) k d = (case map_of kvs k of None \<Rightarrow> d | Some v \<Rightarrow> v)"
| "field _ k d = d"

text \<open>
  A variant record the processor can read: a dictionary in which \<^verbatim>\<open>cadd\<close>,
  \<^verbatim>\<open>cadd.gene\<close> and \<^verbatim>\<open>dbsnp\<close>, where present, are dictionaries.
\<close>

definition variant_ok :: "pyval \<Rightarrow> bool" where
  "variant_ok j =
     (is_dict j \<and> is_dict (field j ''cadd'' (PDict []))
      \<and> is_dict (field (field j ''cadd'' (PDict [])) ''gene'' (PDict []))
      \<and> is_dict (field j ''dbsnp'' (PDict [])))"

text \<open>
  A gene record the processor can read: a dictionary in which
  \<^item> \<^verbatim>\<open>refseq\<close>, where present, is a dictionary, and each of its entries \<^verbatim>\<open>genomic\<close>
    and \<^verbatim>\<open>rna\<close> is empty, a text, a dictionary or a list or tuple of texts (\<open>names_ok\<close>);
  \<^item> \<^verbatim>\<open>generif\<close>, unless the record has a non-empty summary, is empty or a list
    whose first 20 items are dictionaries with a \<^verbatim>\<open>text\<close> that is a text or empty
    (\<open>rifs_ok\<close>); a single note sent as a bare dictionary is not of this shape, and the
    slice \<^verbatim>\<open>generif[:20]\<close> raises on it;
  \<^item> \<^verbatim>\<open>pathway\<close> is empty or a dictionary, each of whose six listings is a
    dictionary or a list of dictionaries (\<open>pathway_ok\<close>).
\<close>

definition names_ok :: "pyval \<Rightarrow> bool" where
  "names_ok v = (case v of PList xs \<Rightarrow> list_all is_str xs | PStr s \<Rightarrow> True | PDict kvs \<Rightarrow> True
                 | PTuple xs \<Rightarrow> list_all is_str xs | w \<Rightarrow> \<not> truthy w)"

definition rif_ok :: "pyval \<Rightarrow> bool" where
  "rif_ok rif = (is_dict rif \<and> (is_str (field rif ''text'' PNone) \<or> \<not> truthy (field rif ''text'' PNone)))"

definition rifs_ok :: "pyval \<Rightarrow> bool" where
  "rifs_ok g = (case g of PList rifs \<Rightarrow> list_all rif_ok (take 20 rifs) | w \<Rightarrow> \<not> truthy w)"

definition pathway_ok :: "pyval \<Rightarrow> bool" where
  "pathway_ok p =
     (case p of
        PDict pkvs \<Rightarrow> list_all (\<lambda>k. list_all is_dict (as_list (field p k (PList [])))) pathway_keys
      | w \<Rightarrow> \<not> truthy w)"

definition gene_ok :: "pyval \<Rightarrow> bool" where
  "gene_ok j =
     (is_dict j \<and> is_dict (field j ''refseq'' (PDict []))
      \<and> names_ok (field (field j ''refseq'' (PDict [])) ''genomic'' (PList []))
      \<and> names_ok (field (field j ''refseq'' (PDict [])) ''rna'' (PList []))
      \<and> (truthy (field j ''summary'' PNone) \<or> rifs_ok (field j ''generif'' PNone))
      \<and> pathway_ok (field j ''pathway'' PNone))"

text \<open>Every \<^verbatim>\<open>Journal\<close> node of every article of the tree has a \<^verbatim>\<open>Title\<close> child.\<close>

definition journals_titled :: "xml \<Rightarrow> bool" where
  "journals_titled tree =
     list_all (\<lambda>article. list_all (\<lambda>j. efind ''Title'' j \<noteq> None) (iter ''Journal'' article))
       (echildren tree)"

text \<open>
  An article with at least one \<^verbatim>\<open>Title\<close> node, \<^verbatim>\<open>AbstractText\<close> node or
  \<^verbatim>\<open>ELocationID\<close> node of type \<^verbatim>\<open>doi\<close>.
\<close>

definition has_text_node :: "xml \<Rightarrow> bool" where
  "has_text_node article =
     (\<not> (iter ''Title'' article = [] \<and> iter ''AbstractText'' article = []
         \<and> filter (\<lambda>d. map_of (eattrib d) ''EIdType'' = Some ''doi'')
               (iter ''ELocationID'' article) = []))"

section \<open>Theorems\<close>

subsection \<open>Session state round trip\<close>

lemma last_path_join: "b \<noteq> [] \<Longrightarrow> last (path_join a b) = last b"
  by (simp add: path_join_def)

lemma write_file_other: "p \<noteq> q \<Longrightarrow> write_file fs q t p = fs p"
  by (simp add: write_file_def)

lemma append_file_other: "p \<noteq> q \<Longrightarrow> append_file fs q t p = fs p"
  by (simp add: append_file_def)

text \<open>
  Every file \<^verbatim>\<open>save\<close> writes after \<^verbatim>\<open>state.json\<close> has a name that ends in \<^verbatim>\<open>.txt\<close> or
  \<^verbatim>\<open>.md\<close>, so none of these writes touches a path that ends in \<^verbatim>\<open>n\<close>.
\<close>

lemma save_results_other:
  "last p = CHR ''n'' \<Longrightarrow> save_results R result_path i rs fs p = fs p"
proof (induction rs arbitrary: i fs)
  case Nil
  then show ?case by simp
next
  case (Cons r rs)
  have a: "p \<noteq> path_join (path_join result_path (dec_nat i)) ''output.txt''"
    using Cons.prems last_path_join [of "''output.txt''" "path_join result_path (dec_nat i)"]
    by auto
  have b: "p \<noteq> path_join (path_join result_path (dec_nat i)) ''vector.txt''"
    using Cons.prems last_path_join [of "''vector.txt''" "path_join result_path (dec_nat i)"]
    by auto
  show ?case
    using Cons.IH [OF Cons.prems] a b by (simp add: Let_def write_file_other)
qed

lemma save_tasks_other:
  "last p = CHR ''n'' \<Longrightarrow> snd (save_tasks R path ts fs) p = fs p"
proof (induction ts arbitrary: fs)
  case Nil
  then show ?case by simp
next
  case (Cons td ts)
  obtain task doc where td: "td = (task, doc)" by (cases td)
  define result_path where "result_path = path_join (path_join path task) ''results''"
  have a: "p \<noteq> path_join result_path ''executive_summary.txt''"
    using Cons.prems last_path_join [of "''executive_summary.txt''" result_path] by auto
  have b: "p \<noteq> path_join result_path ''api_call.txt''"
    using Cons.prems last_path_join [of "''api_call.txt''" result_path] by auto
  show ?case
    using Cons.IH [OF Cons.prems] a b Cons.prems
    by (simp add: td Let_def result_path_def write_file_other save_results_other
        split: option.splits)
qed

lemma fold_append_other:
  "p \<noteq> q \<Longrightarrow> fold (\<lambda>res f. append_file f q (g res)) krs fs p = fs p"
  by (induction krs arbitrary: fs) (simp_all add: append_file_other)

lemma save_key_results_other:
  assumes n: "last p = CHR ''n''"
  shows "save_key_results new_time s path krs fs p = fs p"
proof -
  let ?q = "path_join path (''key_findings_'' @ str_of_int (s_reload_count s) @ ''.md'')"
  have "last ?q = CHR ''d''"
    using last_path_join [of "''key_findings_'' @ str_of_int (s_reload_count s) @ ''.md''" path]
    by simp
  then have "p \<noteq> ?q" using n by auto
  then show ?thesis
    by (simp add: save_key_results_def Let_def fold_append_other append_file_other)
qed

lemma index_state_paths: "path_join path ''index.json'' \<noteq> path_join path ''state.json''"
  by (simp add: path_join_def)

lemma json_norm_strs: "map json_norm (map PStr xs) = map PStr xs"
  by (induction xs) simp_all

lemma json_norm_cache: "json_norm (cache_value c) = cache_value c"
  by (induction c) (simp_all add: cache_value_def json_norm_strs)

lemma saved_state:
  "snd (save R new_time fs idx ds s)
     (path_join (session_path (s_objective s) (s_current_datetime s)) ''state.json'')
     = Some (Json (json_norm (state_dict s)))"
proof -
  let ?path = "session_path (s_objective s) (s_current_datetime s)"
  have n: "last (path_join ?path ''state.json'') = CHR ''n''"
    using last_path_join [of "''state.json''" ?path] by simp
  show ?thesis
    by (simp add: save_def Let_def save_tasks_other [OF n] save_key_results_other [OF n]
        split: option.splits)
qed

lemma saved_index:
  "snd (save R new_time fs idx ds s)
     (path_join (session_path (s_objective s) (s_current_datetime s)) ''index.json'')
     = Some (Index_Snapshot idx)"
proof -
  let ?path = "session_path (s_objective s) (s_current_datetime s)"
  have n: "last (path_join ?path ''index.json'') = CHR ''n''"
    using last_path_join [of "''index.json''" ?path] by simp
  show ?thesis
    by (simp add: save_def Let_def save_tasks_other [OF n] save_key_results_other [OF n]
        index_state_paths split: option.splits)
qed

text \<open>
  Claim C1. For every session state, every index, doc store and file system:
  \<^verbatim>\<open>load\<close>, called on the directory \<^verbatim>\<open>save\<close> wrote, returns the task queue in the same
  order, the same cache and the same task counter, and a reload counter that is the
  saved one plus one. The index, the datetime and the objective come back as saved;
  the completed tasks and the summaries come back as JSON decodes them. This holds
  also when \<^verbatim>\<open>save\<close> ends in the \<^verbatim>\<open>KeyError\<close> of a task entry without results, since
  \<^verbatim>\<open>state.json\<close> is written before the task files.
\<close>

theorem save_load_round_trip:
  "load (snd (save R new_time fs idx ds s)) (session_path (s_objective s) (s_current_datetime s)) =
     Inr \<lparr>l_index = idx,
          l_task_id_counter = PInt (s_task_id_counter s),
          l_task_list = map PStr (s_task_list s),
          l_completed_tasks = json_norm (s_completed_tasks s),
          l_cache = map (\<lambda>kv. (fst kv, PList (map PStr (snd kv)))) (s_cache s),
          l_current_datetime = PStr (s_current_datetime s),
          l_objective = PStr (s_objective s),
          l_reload_count = PInt (s_reload_count s + 1),
          l_summaries = json_norm (s_summaries s)\<rparr>"
  by (simp add: load_def saved_state saved_index state_dict_def bindE_def json_norm_strs
      json_norm_cache) (simp add: cache_value_def)

subsection \<open>Queries on an empty knowledge store\<close>

text \<open>
  Claim C3. On an index with no documents \<^verbatim>\<open>query_knowledge_base\<close> returns \<^verbatim>\<open>None\<close> and
  makes no request to the retrieval, embedding or language-model service, whatever the
  query text, \<^verbatim>\<open>top_k\<close>, the response mode and the choice between the two query styles;
  \<^verbatim>\<open>get_key_results\<close> then returns the empty list, also without a request.
\<close>

theorem empty_store_no_result:
  "query_knowledge_base service [] query response_mode top_k list_index = (Inr PNone, [])
   \<and> get_key_results service markdown [] objective top_k = ([], [])"
  by (simp add: query_knowledge_base_def get_key_results_def)

subsection \<open>Variant records without any of the five fields\<close>

text \<open>
  Claim C6. The claim says that a variant record yields a document if and only if one
  of the five fields is present. The code appends a document for every record: an
  empty record yields a document with the empty text. (The processors of the gene
  and literature results test the text before they append.)
\<close>

theorem myvariant_empty_record_yields_document:
  "process_myvariant_result R (PList [PDict []]) = Inr (PList [doc_pair [] []])"
  by (simp add: process_myvariant_result_def myvariant_record_def variant_data_def bindE_def)

subsection \<open>Failed executions\<close>

text \<open>
  Claim C2. The claim says that \<^verbatim>\<open>handle_python_result\<close> returns \<^verbatim>\<open>None\<close> and records the
  failure for each of the three tools when the generated code raises. For a task
  tagged \<^verbatim>\<open>MYGENE\<close> the code does not get that far: \<^verbatim>\<open>execute_python\<close> returns \<^verbatim>\<open>None\<close>, the
  \<^verbatim>\<open>MYGENE\<close> block records the call as if it had succeeded and calls
  \<^verbatim>\<open>process_mygene_result(None)\<close>, which raises \<^verbatim>\<open>AttributeError\<close>; the branch that records
  the failure is never reached.
\<close>

theorem mygene_failure_raises:
  "handle_python_result R parse (\<lambda>code. Raises_Exception) ''query_term = 1/0'' []
     ''MYGENE: BRCA1''
     \<lparr>key_results = None,
      tasks = [(''task_1'', \<lparr>executive_summary = None, result_code = None, results = Some []\<rparr>)]\<rparr>
     ''task_1''
   = (Inl AttributeError,
      [(''MYGENE'', [''---\<newline>query_term = 1/0---\<newline>''])],
      \<lparr>key_results = None,
       tasks = [(''task_1'', \<lparr>executive_summary = None, result_code = Some ''query_term = 1/0'',
                             results = Some []\<rparr>)]\<rparr>)"
  by (simp add: handle_python_result_def execute_python_def tool_block_def bindC_def
      process_mygene_result_def process_myvariant_result_def mygene_record_def bindE_def
      cache_append_def cache_get_def success_record_def)






subsection \<open>Truncation of stored results\<close>

lemma py_slice_to_nonneg: "0 \<le> n \<Longrightarrow> py_slice_to s n = take (nat n) s"
  by (simp add: py_slice_to_def)

lemma task_results_append:
  "append_result ds k e = Inr ds' \<Longrightarrow> task_results ds' k = task_results ds k @ [e]"
  by (auto simp: append_result_def task_results_def update_conv' split: option.splits)

lemma append_result_ok:
  "map_of (tasks ds) k = Some td \<Longrightarrow> results td = Some old \<Longrightarrow>
     \<exists>ds' td'. append_result ds k e = Inr ds' \<and> map_of (tasks ds') k = Some td'
       \<and> results td' = Some (old @ [e])"
  by (simp add: append_result_def update_conv')

text \<open>
  The four ways the loop body can end on an item: before any request, at the embedding
  request, at the append to the doc store (with the document already in the index), or
  with the document inserted and the entry appended.
\<close>

lemma handle_result_cases:
  assumes "0 \<le> cutoff"
  obtains
    (stop) e where
      "handle_result R nt ec ins k c cutoff i r st = st\<lparr>h_error := Some e\<rparr>"
  | (embed) b e where
      "py_index r 0 = Inr b"
      "ec (ada_text nt (take (nat cutoff) (py_str R b))) 0 = Inl e"
      "handle_result R nt ec ins k c cutoff i r st =
         st\<lparr>h_requests := h_requests st @ [ada_text nt (take (nat cutoff) (py_str R b))],
            h_error := Some (OpenAI e)\<rparr>"
  | (stored) b v doc e where
      "py_index r 0 = Inr b"
      "ec (ada_text nt (take (nat cutoff) (py_str R b))) 0 = Inr v"
      "doc_text doc = take (nat cutoff) (py_str R b)"
      "handle_result R nt ec ins k c cutoff i r st =
         st\<lparr>h_requests := h_requests st
              @ (if v = [] then [ada_text nt (take (nat cutoff) (py_str R b)),
                                 ada_text nt (take (nat cutoff) (py_str R b))]
                 else [ada_text nt (take (nat cutoff) (py_str R b))]),
            h_index := ins (h_index st) doc,
            h_inserted := h_inserted st @ [doc],
            h_error := Some e\<rparr>"
  | (full) b v doc entry ds' where
      "py_index r 0 = Inr b"
      "ec (ada_text nt (take (nat cutoff) (py_str R b))) 0 = Inr v"
      "doc_text doc = take (nat cutoff) (py_str R b)"
      "rr_output entry = take (nat cutoff) (py_str R b)"
      "task_results ds' k = task_results (h_doc_store st) k @ [entry]"
      "handle_result R nt ec ins k c cutoff i r st =
         st\<lparr>h_requests := h_requests st
              @ (if v = [] then [ada_text nt (take (nat cutoff) (py_str R b)),
                                 ada_text nt (take (nat cutoff) (py_str R b))]
                 else [ada_text nt (take (nat cutoff) (py_str R b))]),
            h_index := ins (h_index st) doc,
            h_inserted := h_inserted st @ [doc],
            h_doc_store := ds'\<rparr>"
proof (cases "py_index r 0")
  case (Inl e)
  then show ?thesis using stop by (simp add: handle_result_def)
next
  case r0: (Inr b)
  let ?res = "take (nat cutoff) (py_str R b)"
  have sl: "py_slice_to (py_str R b) cutoff = ?res" using assms by (rule py_slice_to_nonneg)
  show ?thesis
  proof (cases "py_index r 1")
    case (Inl e)
    then show ?thesis using stop r0 by (simp add: handle_result_def)
  next
    case r1': (Inr meta)
    then have r1: "py_index r (Suc 0) = Inr meta" by simp
    show ?thesis
    proof (cases "ec (ada_text nt ?res) 0")
      case (Inl e)
      then show ?thesis
        using embed [OF r0 Inl] r0 r1 sl
        by (simp add: handle_result_def get_ada_embedding_def Let_def)
    next
      case emb: (Inr v)
      let ?doc = "\<lparr>doc_id = ''doc_id_'' @ str_of_int c @ ''_'' @ dec_nat i, doc_text = ?res,
                    doc_embedding = v, doc_metadata = meta\<rparr>"
      let ?entry = "\<lparr>rr_task_id_counter = c, rr_vectorized_data = v, rr_output = ?res,
                     rr_metadata = meta\<rparr>"
      have ins: "insert_doc_llama_index ins nt ec idx did ?res meta v
                 = (Inr (ins idx \<lparr>doc_id = did, doc_text = ?res, doc_embedding = v,
                                   doc_metadata = meta\<rparr>,
                         \<lparr>doc_id = did, doc_text = ?res, doc_embedding = v,
                          doc_metadata = meta\<rparr>),
                    if v = [] then [ada_text nt ?res] else [])" for idx did
        using emb by (simp add: insert_doc_llama_index_def get_ada_embedding_def bindE_def Let_def)
      show ?thesis
      proof (cases "append_result (h_doc_store st) k ?entry")
        case (Inl e)
        show ?thesis
          by (rule stored [OF r0 emb, of ?doc e])
            (simp_all add: handle_result_def r0 r1 sl get_ada_embedding_def emb ins Inl Let_def)
      next
        case app: (Inr ds')
        have tr: "task_results ds' k = task_results (h_doc_store st) k @ [?entry]"
          using task_results_append [OF app] .
        show ?thesis
          by (rule full [OF r0 emb, of ?doc ?entry ds'])
            (simp_all add: handle_result_def r0 r1 sl get_ada_embedding_def emb ins app tr Let_def)
      qed
    qed
  qed
qed

text \<open>
  What a run of the loop has done when it ends, by return or by exception: \<open>n\<close> documents
  inserted, \<open>m\<close> entries appended, requests made for \<open>p\<close> items.
\<close>

lemma handle_loop_stores:
  assumes "0 \<le> cutoff" and "h_error st = None"
  shows "\<exists>n m p docs new.
      m \<le> n \<and> n \<le> p \<and> p \<le> Suc m \<and> p \<le> length rs
    \<and> h_inserted (handle_loop R nt ec ins k c cutoff i rs st) = h_inserted st @ docs
    \<and> map (\<lambda>d. Inr (doc_text d)) docs
        = map (\<lambda>r. map_sum id (\<lambda>b. take (nat cutoff) (py_str R b)) (py_index r 0)) (take n rs)
    \<and> h_index (handle_loop R nt ec ins k c cutoff i rs st) = foldl ins (h_index st) docs
    \<and> task_results (h_doc_store (handle_loop R nt ec ins k c cutoff i rs st)) k
        = task_results (h_doc_store st) k @ new
    \<and> map (\<lambda>e. Inr (rr_output e)) new
        = map (\<lambda>r. map_sum id (\<lambda>b. take (nat cutoff) (py_str R b)) (py_index r 0)) (take m rs)
    \<and> h_requests (handle_loop R nt ec ins k c cutoff i rs st)
        = h_requests st
          @ concat (map (\<lambda>r. case py_index r 0 of
                                 Inl e \<Rightarrow> []
                               | Inr b \<Rightarrow>
                                   if ec (ada_text nt (take (nat cutoff) (py_str R b))) 0 = Inr []
                                   then [ada_text nt (take (nat cutoff) (py_str R b)),
                                         ada_text nt (take (nat cutoff) (py_str R b))]
                                   else [ada_text nt (take (nat cutoff) (py_str R b))])
                      (take p rs))
    \<and> (h_error (handle_loop R nt ec ins k c cutoff i rs st) = None \<longrightarrow> m = length rs)"
  (is "\<exists>n m p docs new. ?P rs i st n m p docs new")
  using assms(2)
proof (induction rs arbitrary: i st)
  case Nil
  have "?P [] i st 0 0 0 [] []" by simp
  then show ?case by (intro exI)
next
  case (Cons r rs)
  let ?st' = "handle_result R nt ec ins k c cutoff i r st"
  show ?case
  proof (rule handle_result_cases [OF assms(1), of R nt ec ins k c i r st], goal_cases)
    case (1 e)
    then have lp: "handle_loop R nt ec ins k c cutoff i (r # rs) st = st\<lparr>h_error := Some e\<rparr>"
      by (simp add: Let_def)
    have "?P (r # rs) i st 0 0 0 [] []" unfolding lp by simp
    then show ?thesis by (intro exI)
  next
    case (2 b e)
    then have lp: "handle_loop R nt ec ins k c cutoff i (r # rs) st =
         st\<lparr>h_requests := h_requests st @ [ada_text nt (take (nat cutoff) (py_str R b))],
            h_error := Some (OpenAI e)\<rparr>"
      by (simp add: Let_def)
    have "?P (r # rs) i st 0 0 1 [] []" unfolding lp using 2(1,2) by simp
    then show ?thesis by (intro exI)
  next
    case (3 b v doc e)
    then have lp: "handle_loop R nt ec ins k c cutoff i (r # rs) st =
         st\<lparr>h_requests := h_requests st
              @ (if v = [] then [ada_text nt (take (nat cutoff) (py_str R b)),
                                 ada_text nt (take (nat cutoff) (py_str R b))]
                 else [ada_text nt (take (nat cutoff) (py_str R b))]),
            h_index := ins (h_index st) doc,
            h_inserted := h_inserted st @ [doc],
            h_error := Some e\<rparr>"
      by (simp add: Let_def)
    have "?P (r # rs) i st 1 0 1 [doc] []" unfolding lp using 3(1,2,3) by simp
    then show ?thesis by (intro exI)
  next
    case (4 b v doc entry ds')
    then have ne: "h_error ?st' = None" using Cons.prems by simp
    from Cons.IH [OF ne, of "Suc i"]
    obtain n where "\<exists>m p docs new. ?P rs (Suc i) ?st' n m p docs new" ..
    then obtain m where "\<exists>p docs new. ?P rs (Suc i) ?st' n m p docs new" ..
    then obtain p where "\<exists>docs new. ?P rs (Suc i) ?st' n m p docs new" ..
    then obtain docs where "\<exists>new. ?P rs (Suc i) ?st' n m p docs new" ..
    then obtain new where ih: "?P rs (Suc i) ?st' n m p docs new" ..
    have loop: "handle_loop R nt ec ins k c cutoff i (r # rs) st
        = handle_loop R nt ec ins k c cutoff (Suc i) rs ?st'"
      using ne by (simp add: Let_def)
    have "?P (r # rs) i st (Suc n) (Suc m) (Suc p) (doc # docs) (entry # new)"
      unfolding loop using ih 4(1-5) by (simp add: 4(6))
    then show ?thesis by (intro exI)
  qed
qed

text \<open>The loop returns where every item can be read and embedded and the task has a result list.\<close>

lemma handle_result_ok:
  assumes "0 \<le> cutoff"
    and "py_index r 0 = Inr b" and "py_index r 1 = Inr mta"
    and "ec (ada_text nt (take (nat cutoff) (py_str R b))) 0 = Inr v"
    and "map_of (tasks (h_doc_store st)) k = Some td" and "results td = Some old"
    and "h_error st = None"
  shows "h_error (handle_result R nt ec ins k c cutoff i r st) = None
       \<and> (\<exists>td' old'. map_of (tasks (h_doc_store (handle_result R nt ec ins k c cutoff i r st))) k
                         = Some td' \<and> results td' = Some old')"
proof -
  have r1: "py_index r (Suc 0) = Inr mta" using assms(3) by simp
  have sl: "py_slice_to (py_str R b) cutoff = take (nat cutoff) (py_str R b)"
    using assms(1) by (rule py_slice_to_nonneg)
  show ?thesis
    using assms(2,4,5,6,7) r1
    by (simp add: handle_result_def sl get_ada_embedding_def insert_doc_llama_index_def
          bindE_def Let_def append_result_def update_conv')
qed

lemma handle_loop_ok:
  assumes "0 \<le> cutoff"
    and "\<forall>r\<in>set rs. \<exists>b mta v. py_index r 0 = Inr b \<and> py_index r 1 = Inr mta
             \<and> ec (ada_text nt (take (nat cutoff) (py_str R b))) 0 = Inr v"
    and "\<exists>td old. map_of (tasks (h_doc_store st)) k = Some td \<and> results td = Some old"
    and "h_error st = None"
  shows "h_error (handle_loop R nt ec ins k c cutoff i rs st) = None"
  using assms(2,3,4)
proof (induction rs arbitrary: i st)
  case Nil
  then show ?case by simp
next
  case (Cons r rs)
  from Cons.prems(1) obtain b mta v where
    r: "py_index r 0 = Inr b" "py_index r 1 = Inr mta"
       "ec (ada_text nt (take (nat cutoff) (py_str R b))) 0 = Inr v"
    by auto
  from Cons.prems(2) obtain td old where
    d: "map_of (tasks (h_doc_store st)) k = Some td" "results td = Some old" by blast
  let ?st' = "handle_result R nt ec ins k c cutoff i r st"
  from handle_result_ok [where ec = ec and nt = nt and R = R and ins = ins and c = c and i = i,
      OF assms(1) r d Cons.prems(3)]
  have ne: "h_error ?st' = None"
    and st: "\<exists>td old. map_of (tasks (h_doc_store ?st')) k = Some td \<and> results td = Some old"
    by blast+
  have rest: "\<forall>r\<in>set rs. \<exists>b mta v. py_index r 0 = Inr b \<and> py_index r 1 = Inr mta
             \<and> ec (ada_text nt (take (nat cutoff) (py_str R b))) 0 = Inr v"
    using Cons.prems(1) by simp
  have "handle_loop R nt ec ins k c cutoff i (r # rs) st
        = handle_loop R nt ec ins k c cutoff (Suc i) rs ?st'"
    using ne by (simp add: Let_def)
  then show ?case using Cons.IH [OF rest st ne] by simp
qed

text \<open>
  Claim C9. Let the cutoff be a length (not negative) and let the result be something
  \<^verbatim>\<open>handle_results\<close> can iterate over; write \<open>t r\<close> for the first \<^verbatim>\<open>RESULT_CUTOFF\<close>
  characters of \<^verbatim>\<open>str\<close> of the body (the component 0) of the item \<open>r\<close>. Whether the function
  returns or raises, it has worked through the items in order: for some \<open>n\<close>, \<open>m\<close> and \<open>p\<close>
  with \<open>m \<le> n \<le> p \<le> m + 1\<close>,

    \<^item> the documents handed to \<^verbatim>\<open>index.insert\<close> are \<open>n\<close>, and the text of the \<open>j\<close>-th is
      \<open>t\<close> of the \<open>j\<close>-th item; the index is the old one after these insertions, in order;
    \<^item> the task's list of results in the doc store is the old list followed by \<open>m\<close> new
      entries, and the \<^verbatim>\<open>output\<close> of the \<open>j\<close>-th is \<open>t\<close> of the \<open>j\<close>-th item;
    \<^item> the embedding requests made are those for the first \<open>p\<close> items, in order, and the
      text sent for an item \<open>r\<close> is \<open>t r\<close> as \<^verbatim>\<open>get_ada_embedding\<close> prepares it (line breaks
      replaced by spaces, and cut again where it counts more than 8191 tokens): it is the
      cut text that is embedded, never the whole one. The request is made twice where the
      service answers with an empty embedding, since \<^verbatim>\<open>insert_doc_llama_index\<close> then asks
      again;
    \<^item> if the function returns, \<open>m\<close> is the number of items: every item has its document
      and its entry;
    \<^item> the function returns if every item has a component 0 and a component 1, the
      service answers the request for its text with an embedding, and the doc store has
      a result list for the task.

  A body longer than \<^verbatim>\<open>RESULT_CUTOFF\<close> characters is thus cut without notice.
\<close>

theorem handle_results_truncates:
  assumes "0 \<le> RESULT_CUTOFF"
    and "py_iter result = Inr items"
  shows "\<exists>n m p new.
      m \<le> n \<and> n \<le> p \<and> p \<le> Suc m \<and> p \<le> length items
    \<and> map (\<lambda>d. Inr (doc_text d))
          (h_inserted (handle_results R num_tokens embedding_create index_insert result idx ds k
                         c RESULT_CUTOFF))
        = map (\<lambda>r. map_sum id (\<lambda>b. take (nat RESULT_CUTOFF) (py_str R b)) (py_index r 0))
            (take n items)
    \<and> h_index (handle_results R num_tokens embedding_create index_insert result idx ds k c
                 RESULT_CUTOFF)
        = foldl index_insert idx
            (h_inserted (handle_results R num_tokens embedding_create index_insert result idx ds k
                           c RESULT_CUTOFF))
    \<and> task_results
          (h_doc_store (handle_results R num_tokens embedding_create index_insert result idx ds k
                          c RESULT_CUTOFF)) k
        = task_results ds k @ new
    \<and> map (\<lambda>e. Inr (rr_output e)) new
        = map (\<lambda>r. map_sum id (\<lambda>b. take (nat RESULT_CUTOFF) (py_str R b)) (py_index r 0))
            (take m items)
    \<and> h_requests (handle_results R num_tokens embedding_create index_insert result idx ds k c
                    RESULT_CUTOFF)
        = concat (map (\<lambda>r. case py_index r 0 of
                              Inl e \<Rightarrow> []
                            | Inr b \<Rightarrow>
                                if embedding_create
                                     (ada_text num_tokens (take (nat RESULT_CUTOFF) (py_str R b))) 0
                                   = Inr []
                                then [ada_text num_tokens (take (nat RESULT_CUTOFF) (py_str R b)),
                                      ada_text num_tokens (take (nat RESULT_CUTOFF) (py_str R b))]
                                else [ada_text num_tokens (take (nat RESULT_CUTOFF) (py_str R b))])
                   (take p items))
    \<and> (h_error (handle_results R num_tokens embedding_create index_insert result idx ds k c
                   RESULT_CUTOFF) = None \<longrightarrow> m = length items)
    \<and> ((\<forall>r\<in>set items. \<exists>b mta v. py_index r 0 = Inr b \<and> py_index r 1 = Inr mta
             \<and> embedding_create (ada_text num_tokens (take (nat RESULT_CUTOFF) (py_str R b))) 0
                 = Inr v)
       \<and> (\<exists>td old. map_of (tasks ds) k = Some td \<and> results td = Some old)
       \<longrightarrow> h_error (handle_results R num_tokens embedding_create index_insert result idx ds k c
                       RESULT_CUTOFF) = None)"
proof -
  let ?st = "\<lparr>h_error = None, h_index = idx, h_doc_store = ds, h_requests = [],
              h_inserted = []\<rparr>"
  let ?H = "handle_loop R num_tokens embedding_create index_insert k c RESULT_CUTOFF 0 items ?st"
  have H: "handle_results R num_tokens embedding_create index_insert result idx ds k c
             RESULT_CUTOFF = ?H"
    using assms(2) by (simp add: handle_results_def)
  have st: "h_error ?st = None" by simp
  from handle_loop_stores [OF assms(1) st,
      where R = R and nt = num_tokens and ec = embedding_create and ins = index_insert
        and k = k and c = c and i = 0 and rs = items]
  obtain n where "\<exists>m p docs new.
      m \<le> n \<and> n \<le> p \<and> p \<le> Suc m \<and> p \<le> length items
    \<and> h_inserted ?H = h_inserted ?st @ docs
    \<and> map (\<lambda>d. Inr (doc_text d)) docs
        = map (\<lambda>r. map_sum id (\<lambda>b. take (nat RESULT_CUTOFF) (py_str R b)) (py_index r 0))
            (take n items)
    \<and> h_index ?H = foldl index_insert (h_index ?st) docs
    \<and> task_results (h_doc_store ?H) k = task_results (h_doc_store ?st) k @ new
    \<and> map (\<lambda>e. Inr (rr_output e)) new
        = map (\<lambda>r. map_sum id (\<lambda>b. take (nat RESULT_CUTOFF) (py_str R b)) (py_index r 0))
            (take m items)
    \<and> h_requests ?H
        = h_requests ?st
          @ concat (map (\<lambda>r. case py_index r 0 of
                              Inl e \<Rightarrow> []
                            | Inr b \<Rightarrow>
                                if embedding_create
                                     (ada_text num_tokens (take (nat RESULT_CUTOFF) (py_str R b))) 0
                                   = Inr []
                                then [ada_text num_tokens (take (nat RESULT_CUTOFF) (py_str R b)),
                                      ada_text num_tokens (take (nat RESULT_CUTOFF) (py_str R b))]
                                else [ada_text num_tokens (take (nat RESULT_CUTOFF) (py_str R b))])
                      (take p items))
    \<and> (h_error ?H = None \<longrightarrow> m = length items)"
    (is "\<exists>m p docs new. ?Q m p docs new") ..
  then obtain m where "\<exists>p docs new. ?Q m p docs new" ..
  then obtain p where "\<exists>docs new. ?Q m p docs new" ..
  then obtain docs where "\<exists>new. ?Q m p docs new" ..
  then obtain new where q: "?Q m p docs new" ..
  have docs: "h_inserted ?H = docs" using q by simp
  have ok: "h_error ?H = None"
    if "(\<forall>r\<in>set items. \<exists>b mta v. py_index r 0 = Inr b \<and> py_index r 1 = Inr mta
             \<and> embedding_create (ada_text num_tokens (take (nat RESULT_CUTOFF) (py_str R b))) 0
                 = Inr v)
       \<and> (\<exists>td old. map_of (tasks ds) k = Some td \<and> results td = Some old)"
  proof (rule handle_loop_ok [OF assms(1) _ _ st])
    show "\<forall>r\<in>set items. \<exists>b mta v. py_index r 0 = Inr b \<and> py_index r 1 = Inr mta
             \<and> embedding_create (ada_text num_tokens (take (nat RESULT_CUTOFF) (py_str R b))) 0
                 = Inr v"
      using that by (rule conjunct1)
    show "\<exists>td old. map_of (tasks (h_doc_store ?st)) k = Some td \<and> results td = Some old"
      using that by simp
  qed
  have c1: "m \<le> n \<and> n \<le> p \<and> p \<le> Suc m \<and> p \<le> length items" using q by simp
  have c2: "map (\<lambda>d. Inr (doc_text d)) (h_inserted ?H)
        = map (\<lambda>r. map_sum id (\<lambda>b. take (nat RESULT_CUTOFF) (py_str R b)) (py_index r 0))
            (take n items)"
    unfolding docs using q by (elim conjE)
  have c3: "h_index ?H = foldl index_insert idx (h_inserted ?H)"
    unfolding docs using q by simp
  have c4: "task_results (h_doc_store ?H) k = task_results ds k @ new" using q by simp
  have c5: "map (\<lambda>e. Inr (rr_output e)) new
        = map (\<lambda>r. map_sum id (\<lambda>b. take (nat RESULT_CUTOFF) (py_str R b)) (py_index r 0))
            (take m items)"
    using q by (elim conjE)
  have c6: "h_requests ?H
        = concat (map (\<lambda>r. case py_index r 0 of
                              Inl e \<Rightarrow> []
                            | Inr b \<Rightarrow>
                                if embedding_create
                                     (ada_text num_tokens (take (nat RESULT_CUTOFF) (py_str R b))) 0
                                   = Inr []
                                then [ada_text num_tokens (take (nat RESULT_CUTOFF) (py_str R b)),
                                      ada_text num_tokens (take (nat RESULT_CUTOFF) (py_str R b))]
                                else [ada_text num_tokens (take (nat RESULT_CUTOFF) (py_str R b))])
                   (take p items))"
    using q by simp
  have c7: "h_error ?H = None \<longrightarrow> m = length items" using q by (elim conjE)
  show ?thesis
    unfolding H
    apply (rule exI [where x = n])
    apply (rule exI [where x = m])
    apply (rule exI [where x = p])
    apply (rule exI [where x = new])
    using c1 c2 c3 c4 c5 c6 c7 ok by (intro conjI impI) simp_all
qed

theorem handle_results_truncates_witness:
  "map doc_text
     (h_inserted (handle_results (\<lambda>v. []) length (\<lambda>t n. Inr [1]) (\<lambda>i d. i @ [d])
        (PList [PTuple [PStr ''abcdefgh'', PNone], PTuple [PStr ''ab\<newline>cd'', PNone]]) []
        \<lparr>key_results = None,
         tasks = [(''task_1'', \<lparr>executive_summary = None, result_code = None,
                              results = Some []\<rparr>)]\<rparr>
        ''task_1'' 7 3)) = [''abc'', ''ab\<newline>'']
   \<and> map doc_text
     (h_index (handle_results (\<lambda>v. []) length (\<lambda>t n. Inr [1]) (\<lambda>i d. i @ [d])
        (PList [PTuple [PStr ''abcdefgh'', PNone], PTuple [PStr ''ab\<newline>cd'', PNone]]) []
        \<lparr>key_results = None,
         tasks = [(''task_1'', \<lparr>executive_summary = None, result_code = None,
                              results = Some []\<rparr>)]\<rparr>
        ''task_1'' 7 3)) = [''abc'', ''ab\<newline>'']
   \<and> map rr_output
     (task_results (h_doc_store (handle_results (\<lambda>v. []) length (\<lambda>t n. Inr [1]) (\<lambda>i d. i @ [d])
        (PList [PTuple [PStr ''abcdefgh'', PNone], PTuple [PStr ''ab\<newline>cd'', PNone]]) []
        \<lparr>key_results = None,
         tasks = [(''task_1'', \<lparr>executive_summary = None, result_code = None,
                              results = Some []\<rparr>)]\<rparr>
        ''task_1'' 7 3)) ''task_1'') = [''abc'', ''ab\<newline>'']
   \<and> h_requests (handle_results (\<lambda>v. []) length (\<lambda>t n. Inr [1]) (\<lambda>i d. i @ [d])
        (PList [PTuple [PStr ''abcdefgh'', PNone], PTuple [PStr ''ab\<newline>cd'', PNone]]) []
        \<lparr>key_results = None,
         tasks = [(''task_1'', \<lparr>executive_summary = None, result_code = None,
                              results = Some []\<rparr>)]\<rparr>
        ''task_1'' 7 3) = [''abc'', ''ab '']
   \<and> h_error (handle_results (\<lambda>v. []) length (\<lambda>t n. Inr [1]) (\<lambda>i d. i @ [d])
        (PList [PTuple [PStr ''abcdefgh'', PNone], PTuple [PStr ''ab\<newline>cd'', PNone]]) []
        \<lparr>key_results = None,
         tasks = [(''task_1'', \<lparr>executive_summary = None, result_code = None,
                              results = Some []\<rparr>)]\<rparr>
        ''task_1'' 7 3) = None"
  using handle_results_truncates [where RESULT_CUTOFF = 3
      and result = "PList [PTuple [PStr ''abcdefgh'', PNone], PTuple [PStr ''ab\<newline>cd'', PNone]]"
      and items = "[PTuple [PStr ''abcdefgh'', PNone], PTuple [PStr ''ab\<newline>cd'', PNone]]"
      and R = "\<lambda>v. []" and num_tokens = length and embedding_create = "\<lambda>t n. Inr [1]"
      and index_insert = "\<lambda>i d. i @ [d]" and idx = "[]"
      and ds = "\<lparr>key_results = None,
        tasks = [(''task_1'', \<lparr>executive_summary = None, result_code = None,
                             results = Some []\<rparr>)]\<rparr>"
      and k = "''task_1''" and c = 7]
  by (simp add: handle_results_def handle_result_def get_ada_embedding_def ada_text_def
      insert_doc_llama_index_def append_result_def task_results_def bindE_def py_slice_to_def
      Let_def)

subsection \<open>Retries of the service calls\<close>

lemma expo_le: "expo n \<le> 50"
  by (simp add: expo_def)

lemma on_exception_returns:
  "(\<forall>i<k. retryable (target (n + i))) \<Longrightarrow> \<not> retryable (target (n + k)) \<Longrightarrow>
     on_exception target n waits = Some (target (n + k), waits @ map expo [n..<n + k])"
proof (induction k arbitrary: n waits)
  case 0
  then show ?case
    by (subst on_exception.simps) (auto simp: retryable_def split: sum.splits)
next
  case (Suc k)
  from Suc.prems(1) have r0: "retryable (target n)" by force
  have a: "\<forall>i<k. retryable (target (Suc n + i))" using Suc.prems(1) by force
  have b: "\<not> retryable (target (Suc n + k))" using Suc.prems(2) by simp
  have "on_exception target n waits = on_exception target (Suc n) (waits @ [expo n])"
    using r0 by (subst on_exception.simps) (auto simp: retryable_def split: sum.splits)
  also have "\<dots> = Some (target (Suc n + k), (waits @ [expo n]) @ map expo [Suc n..<Suc n + k])"
    using Suc.IH [OF a b] .
  finally have "on_exception target n waits =
      Some (target (Suc n + k), (waits @ [expo n]) @ map expo [Suc n..<Suc n + k])" .
  moreover have "[n..<n + Suc k] = n # [Suc n..<n + Suc k]"
    by (rule upt_conv_Cons) simp
  ultimately show ?case by simp
qed

lemma on_exception_result:
  assumes "on_exception target n waits = Some res"
  shows "\<exists>k. (\<forall>i<k. retryable (target (n + i))) \<and> \<not> retryable (target (n + k))
       \<and> res = (target (n + k), waits @ map expo [n..<n + k])"
  using assms
proof (induction rule: on_exception.raw_induct [rotated 1, consumes 1, case_names step])
  case (step rec target n waits res)
  show ?case
  proof (cases "retryable (target n)")
    case False
    then have "res = (target n, waits)"
      using step(2) by (auto simp: retryable_def split: sum.splits if_splits)
    then have "(\<forall>i<0. retryable (target (n + i))) \<and> \<not> retryable (target (n + 0))
       \<and> res = (target (n + 0), waits @ map expo [n..<n + 0])"
      using False by simp
    then show ?thesis by blast
  next
    case True
    then have "rec target (Suc n) (waits @ [expo n]) = Some res"
      using step(2) by (auto simp: retryable_def split: sum.splits if_splits)
    from step(1) [OF this] obtain k where
      k: "\<forall>i<k. retryable (target (Suc n + i))" "\<not> retryable (target (Suc n + k))"
         "res = (target (Suc n + k), (waits @ [expo n]) @ map expo [Suc n..<Suc n + k])"
      by blast
    have "\<forall>i<Suc k. retryable (target (n + i))"
    proof (intro allI impI)
      fix i assume "i < Suc k"
      then show "retryable (target (n + i))"
        using True k(1) by (cases i) auto
    qed
    moreover have "\<not> retryable (target (n + Suc k))" using k(2) by simp
    moreover have "[n..<n + Suc k] = n # [Suc n..<n + Suc k]"
      by (rule upt_conv_Cons) simp
    then have "res = (target (n + Suc k), waits @ map expo [n..<n + Suc k])"
      using k(3) by simp
    ultimately show ?thesis by blast
  qed
qed


text \<open>
  Claim C5. The claim says that the retry is triggered by four classes of failure,
  that every other class propagates at once, and that every call to the embedding
  service is wrapped as well. The decorators also list the generic \<^verbatim>\<open>APIError\<close>: a
  completion request that fails with it is tried again. And \<^verbatim>\<open>get_ada_embedding\<close>
  carries no decorator: when its request fails with a rate-limit error the call
  raises at once, although a second request would have succeeded.
\<close>

theorem retry_policy_counterexample:
  "get_gpt_completion (\<lambda>req n. if n = 0 then Inl APIError else Inr ''answer'')
       length ''gene'' 0 ''text-davinci-003'' 1 0 0
     = Some (Inr ''answer'', [1])
   \<and> get_ada_embedding length (\<lambda>t n. if n = 0 then Inl RateLimitError else Inr [1]) ''gene''
     = Inl (OpenAI RateLimitError)"
proof -
  have "get_gpt_completion (\<lambda>req n. if n = 0 then Inl APIError else Inr ''answer'')
       length ''gene'' 0 ''text-davinci-003'' 1 0 0
     = Some (Inr (py_strip ''answer''), [] @ map expo [0..<0 + 1])"
    unfolding get_gpt_completion_def
    using on_exception_returns [of 1 "\<lambda>n. map_sum id py_strip
          (if n = 0 then Inl APIError else Inr ''answer'')" 0 "[]"]
    by (simp add: retryable_def)
  moreover have "py_strip ''answer'' = ''answer''"
    by (simp add: py_strip_def py_isspace_def)
  ultimately show ?thesis
    by (simp add: get_ada_embedding_def expo_def)
qed

lemma retryable_strip:
  "retryable (map_sum id py_strip x) = retryable x" for x :: "openai_error + string"
  by (cases x) (simp_all add: retryable_def)

lemma retry_policy:
  fixes f :: "nat \<Rightarrow> openai_error + string"
  shows "(on_exception (\<lambda>n. map_sum id py_strip (f n)) 0 [] = Some (res, ws) \<longrightarrow>
      (\<exists>k. ws = map expo [0..<k] \<and> (\<forall>w\<in>set ws. w \<le> 50)
        \<and> (\<forall>i<k. \<exists>e. retry_on e \<and> f i = Inl e)
        \<and> \<not> retryable (f k) \<and> res = map_sum id py_strip (f k)))
    \<and> ((\<forall>i<j. retryable (f i)) \<and> \<not> retryable (f j) \<longrightarrow>
        on_exception (\<lambda>n. map_sum id py_strip (f n)) 0 []
          = Some (map_sum id py_strip (f j), map expo [0..<j]))"
proof (intro conjI impI)
  assume a: "on_exception (\<lambda>n. map_sum id py_strip (f n)) 0 [] = Some (res, ws)"
  from on_exception_result [OF a] obtain k where
    k: "\<forall>i<k. retryable (map_sum id py_strip (f (0 + i)))"
       "\<not> retryable (map_sum id py_strip (f (0 + k)))"
       "(res, ws) = (map_sum id py_strip (f (0 + k)), [] @ map expo [0..<0 + k])"
    by blast
  have "\<forall>i<k. \<exists>e. retry_on e \<and> f i = Inl e"
  proof (intro allI impI)
    fix i assume "i < k"
    then have "retryable (f i)" using k(1) retryable_strip by simp
    then show "\<exists>e. retry_on e \<and> f i = Inl e"
      by (cases "f i") (simp_all add: retryable_def)
  qed
  moreover have "\<forall>w\<in>set ws. w \<le> 50" using k(3) by (auto simp: expo_le)
  ultimately show "\<exists>k. ws = map expo [0..<k] \<and> (\<forall>w\<in>set ws. w \<le> 50)
        \<and> (\<forall>i<k. \<exists>e. retry_on e \<and> f i = Inl e)
        \<and> \<not> retryable (f k) \<and> res = map_sum id py_strip (f k)"
    using k retryable_strip by auto
next
  assume b: "(\<forall>i<j. retryable (f i)) \<and> \<not> retryable (f j)"
  show "on_exception (\<lambda>n. map_sum id py_strip (f n)) 0 []
          = Some (map_sum id py_strip (f j), map expo [0..<j])"
    using on_exception_returns [of j "\<lambda>n. map_sum id py_strip (f n)" 0 "[]"] b
    by (simp add: retryable_strip)
qed

text \<open>
  Claim C5, amended. Every call made through \<^verbatim>\<open>get_gpt_completion\<close> and
  \<^verbatim>\<open>get_gpt_chat_completion\<close> runs under an exponential backoff. As long as the request
  fails with a rate-limit, API, connection, service-unavailable or timeout error it is
  made again, after a wait of at most \<open>min (2 ^ i) 50\<close> seconds before the \<open>i\<close>-th new
  request, so no wait exceeds 50. The first request that returns, or that raises an
  exception of any other class, ends the call with that outcome: such an exception
  propagates at once. (\<open>retryable x\<close> says that the outcome \<open>x\<close> of a request is an
  exception of one of the five classes.) A call that gives a result gave it in this
  way, and a call whose \<open>j\<close>-th request is the first that is not retryable gives the
  outcome of that request after \<open>j\<close> waits.
\<close>

theorem completion_retry_policy:
  "(get_gpt_completion completion_create num_tokens prompt temp engine top_p frequency_penalty
       presence_penalty = Some (out, waits) \<longrightarrow>
     (\<exists>k. waits = map expo [0..<k] \<and> (\<forall>w\<in>set waits. w \<le> 50)
        \<and> (\<forall>i<k. \<exists>e. retry_on e \<and>
              completion_create
                (completion_args num_tokens prompt temp engine top_p frequency_penalty
                   presence_penalty) i = Inl e)
        \<and> \<not> retryable (completion_create
                (completion_args num_tokens prompt temp engine top_p frequency_penalty
                   presence_penalty) k)
        \<and> out = map_sum id py_strip (completion_create
                (completion_args num_tokens prompt temp engine top_p frequency_penalty
                   presence_penalty) k)))
   \<and> ((\<forall>i<j. retryable (completion_create
                (completion_args num_tokens prompt temp engine top_p frequency_penalty
                   presence_penalty) i))
        \<and> \<not> retryable (completion_create
                (completion_args num_tokens prompt temp engine top_p frequency_penalty
                   presence_penalty) j) \<longrightarrow>
       get_gpt_completion completion_create num_tokens prompt temp engine top_p frequency_penalty
         presence_penalty
       = Some (map_sum id py_strip (completion_create
                (completion_args num_tokens prompt temp engine top_p frequency_penalty
                   presence_penalty) j),
               map expo [0..<j]))
   \<and> (get_gpt_chat_completion chat_create system_prompt user_prompt model temp'
         = Some (out', waits') \<longrightarrow>
     (\<exists>k. waits' = map expo [0..<k] \<and> (\<forall>w\<in>set waits'. w \<le> 50)
        \<and> (\<forall>i<k. \<exists>e. retry_on e \<and>
              chat_create (chat_args system_prompt user_prompt model temp') i = Inl e)
        \<and> \<not> retryable (chat_create (chat_args system_prompt user_prompt model temp') k)
        \<and> out' = map_sum id py_strip
                    (chat_create (chat_args system_prompt user_prompt model temp') k)))
   \<and> ((\<forall>i<j'. retryable (chat_create (chat_args system_prompt user_prompt model temp') i))
        \<and> \<not> retryable (chat_create (chat_args system_prompt user_prompt model temp') j') \<longrightarrow>
       get_gpt_chat_completion chat_create system_prompt user_prompt model temp'
       = Some (map_sum id py_strip
                 (chat_create (chat_args system_prompt user_prompt model temp') j'),
               map expo [0..<j']))"
  unfolding get_gpt_completion_def get_gpt_chat_completion_def
  using retry_policy [of "completion_create
          (completion_args num_tokens prompt temp engine top_p frequency_penalty presence_penalty)"
        out waits j]
    retry_policy [of "chat_create (chat_args system_prompt user_prompt model temp')"
        out' waits' j']
  by blast

theorem completion_retry_policy_witness:
  "get_gpt_completion
       (\<lambda>req n. if n = 0 then Inl APIError else if n = 1 then Inl Timeout
                 else Inl InvalidRequestError)
       length ''gene'' 0 ''text-davinci-003'' 1 0 0
     = Some (Inl InvalidRequestError, [1, 2])
   \<and> get_gpt_chat_completion (\<lambda>req n. if n = 0 then Inl RateLimitError else Inr '' answer '')
       ''system'' ''user'' ''gpt-3.5-turbo-16k'' 0
     = Some (Inr ''answer'', [1])"
  using completion_retry_policy [of
      "\<lambda>req n. if n = 0 then Inl APIError else if n = 1 then Inl Timeout
                 else Inl InvalidRequestError"
      length "''gene''" 0 "''text-davinci-003''" 1 0 0
      "Inl InvalidRequestError" "[1, 2]" 2
      "\<lambda>req n. if n = 0 then Inl RateLimitError else Inr '' answer ''"
      "''system''" "''user''" "''gpt-3.5-turbo-16k''" 0 "Inr ''answer''" "[1]" 1]
  by (simp add: retryable_def expo_def less_Suc_eq numeral_2_eq_2 upt_rec py_strip_def
      py_isspace_def)

subsection \<open>Result processors on payloads of the expected shape\<close>

lemma for_each_Inr:
  "(\<And>x. x \<in> set xs \<Longrightarrow> f x = Inr (g x)) \<Longrightarrow> for_each f xs = Inr (concat (map g xs))"
  by (induction xs) (simp_all add: bindE_def)

lemma is_doc_pair: "is_doc (doc_pair b c)"
  by (simp add: doc_pair_def)

lemma py_get_field: "is_dict j \<Longrightarrow> py_get j k d = Inr (field j k d)"
  by (cases j) simp_all

lemma py_get_not_dict: "\<not> is_dict j \<Longrightarrow> py_get j k d = Inl AttributeError"
  by (cases j) simp_all

lemma myvariant_record_ok:
  "variant_ok r \<Longrightarrow>
     myvariant_record R r =
       Inr [doc_pair
         (variant_data R (field r ''_id'' PNone)
            (field (field (field r ''cadd'' (PDict [])) ''gene'' (PDict [])) ''genename'' PNone)
            (field (field r ''cadd'' (PDict [])) ''consequence'' PNone)
            (field (field r ''cadd'' (PDict [])) ''phred'' PNone)
            (field (field r ''dbsnp'' (PDict [])) ''rsid'' PNone)) []]"
  by (simp add: variant_ok_def myvariant_record_def bindE_def py_get_field)


lemma myvariant_record_not_dict: "\<not> is_dict r \<Longrightarrow> myvariant_record R r = Inl AttributeError"
  by (simp add: myvariant_record_def bindE_def py_get_not_dict)

lemma mygene_record_not_dict: "\<not> is_dict r \<Longrightarrow> mygene_record R r = Inl AttributeError"
  by (simp add: mygene_record_def bindE_def py_get_not_dict)

lemma for_each_docs:
  assumes "\<And>x. x \<in> set xs \<Longrightarrow> \<exists>ds. f x = Inr ds \<and> list_all is_doc ds"
  shows "\<exists>ds. for_each f xs = Inr ds \<and> list_all is_doc ds"
  using assms
proof (induction xs)
  case Nil
  then show ?case by simp
next
  case (Cons x xs)
  obtain d1 where d1: "f x = Inr d1" "list_all is_doc d1" using Cons.prems by auto
  obtain d2 where d2: "for_each f xs = Inr d2" "list_all is_doc d2"
    using Cons.IH Cons.prems by auto
  show ?case using d1 d2 by (simp add: bindE_def)
qed

lemma process_myvariant_ok:
  assumes "list_all variant_ok (as_list payload)"
  shows "\<exists>ds. process_myvariant_result R payload = Inr (PList ds) \<and> list_all is_doc ds"
proof -
  have "\<exists>ds. myvariant_record R x = Inr ds \<and> list_all is_doc ds" if "x \<in> set (as_list payload)" for x
    using myvariant_record_ok [of x R] assms that by (auto simp: list_all_iff is_doc_pair)
  from for_each_docs [of "as_list payload" "myvariant_record R", OF this]
  show ?thesis by (auto simp: process_myvariant_result_def bindE_def)
qed

lemma journal_titles_ok:
  "list_all (\<lambda>j. efind ''Title'' j \<noteq> None) js \<Longrightarrow>
     journal_titles js = Inr (concat (map (\<lambda>j. text_str (the (efind ''Title'' j)) @ ''\<newline>'') js))"
  by (induction js) (auto simp: bindE_def)

lemma pubmed_article_ok:
  assumes "list_all (\<lambda>j. efind ''Title'' j \<noteq> None) (iter ''Journal'' a)"
  shows "\<exists>ds. pubmed_article a = Inr ds \<and> list_all is_doc ds"
  using journal_titles_ok [OF assms]
  by (simp add: pubmed_article_def article_texts_def bindE_def is_doc_pair)

lemma process_pubmed_ok:
  assumes "fromstring parse result = Some tree" and "journals_titled tree"
  shows "\<exists>ds. process_pubmed_result parse result = Inr (PList ds) \<and> list_all is_doc ds"
proof -
  have "\<exists>ds. pubmed_article a = Inr ds \<and> list_all is_doc ds" if "a \<in> set (echildren tree)" for a
    using pubmed_article_ok [of a] assms(2) that by (auto simp: journals_titled_def list_all_iff)
  from for_each_docs [of "echildren tree" pubmed_article, OF this]
  show ?thesis using assms(1) by (auto simp: process_pubmed_result_def bindE_def)
qed

lemma process_pubmed_unparsed:
  "fromstring parse result = None \<Longrightarrow>
     process_pubmed_result parse result = Inr (case result of PList xs \<Rightarrow> PList xs | _ \<Rightarrow> PList [result])"
  by (simp add: process_pubmed_result_def)


lemma the_strs_ok: "list_all is_str xs \<Longrightarrow> \<exists>ss. the_strs xs = Some ss"
proof (induction xs)
  case Nil
  then show ?case by simp
next
  case (Cons x xs)
  then obtain s where "x = PStr s" by (cases x) simp_all
  then show ?case using Cons by auto
qed

lemma py_join_ok: "names_ok v \<Longrightarrow> truthy v \<Longrightarrow> \<exists>j. py_join sep v = Inr j"
  using the_strs_ok by (cases v) (fastforce simp: names_ok_def)+

lemma refseq_line_ok:
  assumes "names_ok v"
  shows "\<exists>s. refseq_line label v = Inr s"
proof (cases "truthy v")
  case True
  then obtain j where "py_join '', '' v = Inr j" using py_join_ok [OF assms] by blast
  then show ?thesis using True by (simp add: refseq_line_def bindE_def)
next
  case False
  then show ?thesis by (simp add: refseq_line_def)
qed

lemma rif_step_ok: "rif_ok rif \<Longrightarrow> \<exists>acc'. rif_step R acc rif = Inr acc'"
  by (cases "field rif ''text'' PNone")
    (auto simp: rif_ok_def rif_step_def bindE_def py_get_field)

lemma rif_loop_ok: "list_all rif_ok rifs \<Longrightarrow> \<exists>acc'. rif_loop R acc rifs = Inr acc'"
proof (induction rifs arbitrary: acc)
  case Nil
  then show ?case by simp
next
  case (Cons rif rifs)
  then obtain a where "rif_step R acc rif = Inr a" using rif_step_ok by fastforce
  then show ?case using Cons by (simp add: bindE_def)
qed

lemma generif_ok:
  "rifs_ok g \<Longrightarrow> truthy g \<Longrightarrow> \<exists>acc'. bindE (slice20 g) (rif_loop R acc) = Inr acc'"
  using rif_loop_ok by (cases g) (auto simp: rifs_ok_def bindE_def)

lemma gene_summary_ok:
  assumes "names_ok g" and "names_ok rna" and "truthy summary \<or> rifs_ok generif"
  shows "\<exists>raw cit. gene_summary R name g rna symbol taxid type_of_gene pos summary generif
           = Inr (raw, cit)"
proof -
  obtain lg where lg: "refseq_line ''RefSeq genomic: '' g = Inr lg"
    using refseq_line_ok [OF assms(1)] by blast
  obtain lr where lr: "refseq_line ''RefSeq rna: '' rna = Inr lr"
    using refseq_line_ok [OF assms(2)] by blast
  show ?thesis
  proof (cases "truthy summary")
    case True
    then show ?thesis by (simp add: gene_summary_def lg lr bindE_def Let_def)
  next
    case False
    then have ok: "rifs_ok generif" using assms(3) by simp
    show ?thesis
    proof (cases "truthy generif")
      case True
      from generif_ok [OF ok True] obtain acc' where
        "bindE (slice20 generif)
           (rif_loop R (field_line R ''Gene Name: '' name @ lg @ lr
              @ field_line R ''Symbol: '' symbol @ field_line R ''Tax ID: '' taxid
              @ type_line R type_of_gene @ field_line R ''Position: '' pos, [])) = Inr acc'"
        by blast
      then show ?thesis
        using False True by (cases acc') (simp add: gene_summary_def lg lr bindE_def Let_def)
    next
      case nog: False
      then show ?thesis using False by (simp add: gene_summary_def lg lr bindE_def Let_def)
    qed
  qed
qed

lemma pathway_elements_dict:
  "is_dict p \<Longrightarrow>
     pathway_elements p ks = Inr (map (\<lambda>k. (k, as_list (field p k (PList [])))) ks)"
  by (induction ks) (simp_all add: bindE_def py_get_field)

lemma pathway_item_dict:
  "is_dict item \<Longrightarrow>
     pathway_item R item =
       Inr ('' ID: '' @ py_str R (field item ''id'' (PStr []))
            @ '' Name: '' @ py_str R (field item ''name'' (PStr [])))"
  by (simp add: pathway_item_def bindE_def py_get_field)

lemma pathway_items_ok: "list_all is_dict items \<Longrightarrow> \<exists>s. pathway_items R items = Inr s"
  by (induction items) (auto simp: bindE_def pathway_item_dict)

lemma pathway_listing_ok:
  "list_all (\<lambda>kv. list_all is_dict (snd kv)) kvs \<Longrightarrow> \<exists>s. pathway_listing R kvs = Inr s"
proof (induction kvs)
  case Nil
  then show ?case by simp
next
  case (Cons kv kvs)
  obtain k v where kv: "kv = (k, v)" by (cases kv)
  obtain s where "pathway_items R v = Inr s" using Cons.prems kv pathway_items_ok by fastforce
  moreover obtain r where "pathway_listing R kvs = Inr r" using Cons by auto
  ultimately show ?case by (simp add: kv bindE_def)
qed

lemma pathway_ok_elements:
  assumes "pathway_ok p" and "is_dict p"
  shows "list_all (\<lambda>kv. list_all is_dict (snd kv))
           (map (\<lambda>k. (k, as_list (field p k (PList [])))) pathway_keys)"
  using assms by (cases p) (simp_all add: pathway_ok_def list_all_iff)

lemma pathway_ok_dict: "pathway_ok p \<Longrightarrow> truthy p \<Longrightarrow> is_dict p"
  by (cases p) (simp_all add: pathway_ok_def)

lemma gene_pathway_ok:
  assumes "pathway_ok p" and "truthy p" and "names_ok g" and "names_ok rna"
  shows "\<exists>s. gene_pathway R p name g rna symbol taxid type_of_gene pos = Inr s"
proof -
  have d: "is_dict p" using pathway_ok_dict [OF assms(1,2)] .
  obtain lg where lg: "refseq_line ''RefSeq genomic: '' g = Inr lg"
    using refseq_line_ok [OF assms(3)] by blast
  obtain lr where lr: "refseq_line ''RefSeq rna: '' rna = Inr lr"
    using refseq_line_ok [OF assms(4)] by blast
  obtain l where "pathway_listing R (map (\<lambda>k. (k, as_list (field p k (PList [])))) pathway_keys)
      = Inr l"
    using pathway_listing_ok [OF pathway_ok_elements [OF assms(1) d]] by blast
  then show ?thesis
    by (simp add: gene_pathway_def pathway_elements_dict [OF d] lg lr bindE_def)
qed

lemma mygene_record_ok:
  assumes "gene_ok j"
  shows "\<exists>ds. mygene_record R j = Inr ds \<and> list_all is_doc ds"
proof -
  let ?rs = "field j ''refseq'' (PDict [])"
  let ?g = "field ?rs ''genomic'' (PList [])"
  let ?rna = "field ?rs ''rna'' (PList [])"
  let ?p = "field j ''pathway'' PNone"
  have dj: "is_dict j" and dr: "is_dict ?rs" and ng: "names_ok ?g" and nr: "names_ok ?rna"
    and sm: "truthy (field j ''summary'' PNone) \<or> rifs_ok (field j ''generif'' PNone)"
    and pw: "pathway_ok ?p"
    using assms by (simp_all add: gene_ok_def)
  obtain raw cit where s: "gene_summary R (field j ''name'' PNone) ?g ?rna
      (field j ''symbol'' PNone) (field j ''taxid'' PNone) (field j ''type_of_gene'' PNone)
      (field j ''genomic_pos_hg19'' PNone) (field j ''summary'' PNone)
      (field j ''generif'' PNone) = Inr (raw, cit)"
    using gene_summary_ok [OF ng nr sm] by blast
  show ?thesis
  proof (cases "truthy ?p")
    case False
    then show ?thesis
      by (simp add: mygene_record_def py_get_field dj dr bindE_def s Let_def is_doc_pair)
  next
    case True
    obtain pt where "gene_pathway R ?p (field j ''name'' PNone) ?g ?rna
      (field j ''symbol'' PNone) (field j ''taxid'' PNone) (field j ''type_of_gene'' PNone)
      (field j ''genomic_pos_hg19'' PNone) = Inr pt"
      using gene_pathway_ok [OF pw True ng nr] by blast
    then show ?thesis using True
      by (simp add: mygene_record_def py_get_field dj dr bindE_def s Let_def is_doc_pair)
  qed
qed

lemma process_mygene_ok:
  assumes "list_all gene_ok (as_list payload)"
  shows "\<exists>ds. process_mygene_result R payload = Inr (PList ds) \<and> list_all is_doc ds"
proof -
  have "\<exists>ds. mygene_record R x = Inr ds \<and> list_all is_doc ds" if "x \<in> set (as_list payload)" for x
    using mygene_record_ok [of x R] assms that by (auto simp: list_all_iff)
  from for_each_docs [of "as_list payload" "mygene_record R", OF this]
  show ?thesis by (auto simp: process_mygene_result_def bindE_def)
qed










subsection \<open>A worked gene record\<close>


subsection \<open>Literature payloads\<close>

lemma self_in_iter: "etag c = t \<Longrightarrow> c \<in> set (iter t c)"
  by (cases c) simp

lemma iter_child:
  "j \<in> set (iter tg a) \<Longrightarrow> c \<in> set (echildren j) \<Longrightarrow> etag c = t \<Longrightarrow> c \<in> set (iter t a)"
proof (induction a)
  case (Element t' atts x cs)
  from Element.prems(1) consider "j = Element t' atts x cs" | c' where "c' \<in> set cs" "j \<in> set (iter tg c')"
    by (auto split: if_splits)
  then show ?case
  proof cases
    case 1
    then have "c \<in> set cs" using Element.prems(2) by simp
    moreover have "c \<in> set (iter t c)" using self_in_iter [OF Element.prems(3)] .
    ultimately show ?thesis by auto
  next
    case 2
    then have "c \<in> set (iter t c')" using Element.IH Element.prems(2,3) by blast
    then show ?thesis using 2(1) by auto
  qed
qed

lemma efind_Some: "efind t j = Some c \<Longrightarrow> c \<in> set (echildren j) \<and> etag c = t"
  by (auto simp: efind_def find_Some_iff)

lemma text_lines_empty: "text_lines es = [] \<longleftrightarrow> es = []"
  by (cases es) (simp_all add: text_lines_def)

lemma titled_journal_gives_title:
  assumes "list_all (\<lambda>j. efind ''Title'' j \<noteq> None) (iter ''Journal'' a)"
    and "iter ''Journal'' a \<noteq> []"
  shows "iter ''Title'' a \<noteq> []"
proof -
  obtain j where j: "j \<in> set (iter ''Journal'' a)" using assms(2) by (cases "iter ''Journal'' a") auto
  then obtain c where "efind ''Title'' j = Some c" using assms(1) by (auto simp: list_all_iff)
  then have "c \<in> set (echildren j)" "etag c = ''Title''" using efind_Some by auto
  then have "c \<in> set (iter ''Title'' a)" using iter_child [OF j] by blast
  then show ?thesis by auto
qed

lemma pubmed_article_count:
  assumes "list_all (\<lambda>j. efind ''Title'' j \<noteq> None) (iter ''Journal'' a)"
  shows "\<exists>ds. pubmed_article a = Inr ds \<and> length ds = (if has_text_node a then 1 else 0)"
proof -
  let ?J = "concat (map (\<lambda>j. text_str (the (efind ''Title'' j)) @ ''\<newline>'') (iter ''Journal'' a))"
  have jt: "journal_titles (iter ''Journal'' a) = Inr ?J"
    using journal_titles_ok [OF assms] .
  have "?J \<noteq> [] \<Longrightarrow> text_lines (iter ''Title'' a) \<noteq> []"
  proof -
    assume "?J \<noteq> []"
    then have "iter ''Journal'' a \<noteq> []" by auto
    then show ?thesis using titled_journal_gives_title [OF assms] text_lines_empty by blast
  qed
  then have "text_lines (iter ''Title'' a) @ text_lines (iter ''AbstractText'' a) @ ?J @ doi_lines a \<noteq> []
      \<longleftrightarrow> has_text_node a"
    by (auto simp: has_text_node_def doi_lines_def text_lines_empty)
  then show ?thesis
    by (simp add: pubmed_article_def article_texts_def jt bindE_def)
qed

lemma for_each_count:
  assumes "\<And>x. x \<in> set xs \<Longrightarrow> \<exists>ds. f x = Inr ds \<and> length ds = (if P x then 1 else 0)"
  shows "\<exists>ds. for_each f xs = Inr ds \<and> length ds = length (filter P xs)"
  using assms
proof (induction xs)
  case Nil
  then show ?case by simp
next
  case (Cons x xs)
  obtain d1 where d1: "f x = Inr d1" "length d1 = (if P x then 1 else 0)" using Cons.prems by auto
  obtain d2 where d2: "for_each f xs = Inr d2" "length d2 = length (filter P xs)"
    using Cons.IH Cons.prems by auto
  show ?case using d1 d2 by (simp add: bindE_def)
qed

text \<open>
  Claim C7. The claim counts the documents for every payload that parses. An article
  with a \<^verbatim>\<open>Journal\<close> node that has no \<^verbatim>\<open>Title\<close> child makes the journal loop raise
  \<^verbatim>\<open>AttributeError\<close> (the author and date loops catch the same exception, the journal
  loop does not), so no document is returned at all.
\<close>

theorem journal_without_title_raises:
  "process_pubmed_result
     (\<lambda>s. Some (Element ''PubmedArticleSet'' [] None
        [Element ''PubmedArticle'' [] None
           [Element ''ArticleTitle'' [] (Some ''BRCA1 and repair'') [],
            Element ''Journal'' [] None [Element ''ISSN'' [] (Some ''1476-4687'') []]]]))
     (PStr ''<PubmedArticleSet><PubmedArticle><ArticleTitle>BRCA1 and repair</ArticleTitle><Journal><ISSN>1476-4687</ISSN></Journal></PubmedArticle></PubmedArticleSet>'')
   = Inl AttributeError"
  by (simp add: process_pubmed_result_def fromstring_def pubmed_article_def article_texts_def
      efind_def bindE_def)

text \<open>
  Where every \<^verbatim>\<open>Journal\<close> node of every article has a \<^verbatim>\<open>Title\<close> child, the function
  returns, and the number of documents is the number of articles with at least one
  \<^verbatim>\<open>Title\<close> node, \<^verbatim>\<open>AbstractText\<close> node or \<^verbatim>\<open>ELocationID\<close> node of type \<^verbatim>\<open>doi\<close>.
\<close>

theorem pubmed_document_count:
  assumes "fromstring parse result = Some tree" and "journals_titled tree"
  shows "\<exists>ds. process_pubmed_result parse result = Inr (PList ds)
           \<and> length ds = length (filter has_text_node (echildren tree))"
proof -
  have "\<exists>ds. pubmed_article a = Inr ds \<and> length ds = (if has_text_node a then 1 else 0)"
    if "a \<in> set (echildren tree)" for a
    using pubmed_article_count [of a] assms(2) that by (auto simp: journals_titled_def list_all_iff)
  from for_each_count [of "echildren tree" pubmed_article has_text_node, OF this]
  show ?thesis using assms(1) by (auto simp: process_pubmed_result_def bindE_def)
qed

theorem pubmed_document_count_witness:
  "\<exists>ds. process_pubmed_result
     (\<lambda>s. Some (Element ''PubmedArticleSet'' [] None
        [Element ''PubmedArticle'' [] None
           [Element ''Journal'' [] None [Element ''Title'' [] (Some ''Nature'') []],
            Element ''AbstractText'' [] (Some ''We show.'') []],
         Element ''PubmedArticle'' [] None [Element ''Volume'' [] (Some ''12'') []]]))
     (PStr ''<PubmedArticleSet/>'') = Inr (PList ds)
     \<and> length ds = 1"
  using pubmed_document_count [of
      "\<lambda>s. Some (Element ''PubmedArticleSet'' [] None
        [Element ''PubmedArticle'' [] None
           [Element ''Journal'' [] None [Element ''Title'' [] (Some ''Nature'') []],
            Element ''AbstractText'' [] (Some ''We show.'') []],
         Element ''PubmedArticle'' [] None [Element ''Volume'' [] (Some ''12'') []]])"
      "PStr ''<PubmedArticleSet/>''"
      "Element ''PubmedArticleSet'' [] None
        [Element ''PubmedArticle'' [] None
           [Element ''Journal'' [] None [Element ''Title'' [] (Some ''Nature'') []],
            Element ''AbstractText'' [] (Some ''We show.'') []],
         Element ''PubmedArticle'' [] None [Element ''Volume'' [] (Some ''12'') []]]"]
  by (simp add: fromstring_def journals_titled_def efind_def has_text_node_def)

subsection \<open>Malformed payloads\<close>

text \<open>
  Claim C4. The claim says that none of the three processors ever raises and that each
  falls back to the raw input wrapped in a list. The gene and variant processors have
  no fallback: they call \<^verbatim>\<open>.get\<close> on every record and raise \<^verbatim>\<open>AttributeError\<close> on a
  payload that is not a dictionary, such as \<^verbatim>\<open>None\<close> or an error text. The literature
  processor returns a payload that is a list as it is, not wrapped in another list.
\<close>

theorem gene_variant_processors_raise:
  "(\<forall>R. process_myvariant_result R PNone = Inl AttributeError)
   \<and> (\<forall>R. process_mygene_result R (PStr ''Internal Server Error'') = Inl AttributeError)
   \<and> (\<forall>parse. process_pubmed_result parse (PList [PStr ''<a/>'']) = Inr (PList [PStr ''<a/>'']))"
  by (simp add: process_myvariant_result_def process_mygene_result_def
      myvariant_record_not_dict mygene_record_not_dict bindE_def process_pubmed_result_def
      fromstring_def)

text \<open>
  Claim C4, amended. The literature processor does not raise on a payload that does
  not parse: it returns the payload itself when that is a list, and otherwise the
  payload in a one-element list. On a payload that parses and in which every
  \<^verbatim>\<open>Journal\<close> node of every article has a \<^verbatim>\<open>Title\<close> child it returns a list of
  documents, each a pair of a text and citation metadata.

  The variant processor returns such a list of documents when every record (the
  payload itself where it is not a list) is a dictionary whose entries \<^verbatim>\<open>cadd\<close>,
  \<^verbatim>\<open>cadd.gene\<close> and \<^verbatim>\<open>dbsnp\<close>, where present, are dictionaries (\<open>variant_ok\<close>).

  The gene processor returns such a list of documents when every record is a
  dictionary in which (\<open>gene_ok\<close>)

    \<^item> \<^verbatim>\<open>refseq\<close>, where present, is a dictionary, and each of its entries \<^verbatim>\<open>genomic\<close>
      and \<^verbatim>\<open>rna\<close> is a text, a dictionary, a list or tuple of texts, or a value that
      counts as false;
    \<^item> \<^verbatim>\<open>generif\<close>, unless the record has a summary that counts as true, is a list whose
      first 20 items are dictionaries with a \<^verbatim>\<open>text\<close> that is a text or counts as false,
      or is itself a value that counts as false; a \<^verbatim>\<open>generif\<close> that is a single
      dictionary is not among these;
    \<^item> \<^verbatim>\<open>pathway\<close> is a dictionary each of whose six listings (\<^verbatim>\<open>kegg\<close>, \<^verbatim>\<open>pid\<close>,
      \<^verbatim>\<open>reactome\<close>, \<^verbatim>\<open>wikipathways\<close>, \<^verbatim>\<open>netpath\<close>, \<^verbatim>\<open>biocarta\<close>), where present, is a
      dictionary or a list of dictionaries, or is a value that counts as false.

  About records outside these shapes the amended claim says nothing.
\<close>

theorem processors_on_payloads:
  "(fromstring parse result = None \<longrightarrow>
      process_pubmed_result parse result
        = Inr (case result of PList xs \<Rightarrow> PList xs | _ \<Rightarrow> PList [result]))
   \<and> (fromstring parse result = Some tree \<and> journals_titled tree \<longrightarrow>
        (\<exists>ds. process_pubmed_result parse result = Inr (PList ds) \<and> list_all is_doc ds))
   \<and> (list_all variant_ok (as_list variants) \<longrightarrow>
        (\<exists>ds. process_myvariant_result R variants = Inr (PList ds) \<and> list_all is_doc ds))
   \<and> (list_all gene_ok (as_list genes) \<longrightarrow>
        (\<exists>ds. process_mygene_result R genes = Inr (PList ds) \<and> list_all is_doc ds))"
  using process_pubmed_unparsed [of parse result] process_pubmed_ok [of parse result tree]
    process_myvariant_ok [of variants R] process_mygene_ok [of genes R]
  by blast

theorem processors_on_payloads_witness:
  "process_pubmed_result (\<lambda>s. None) (PStr ''<html>Bad Gateway'')
     = Inr (PList [PStr ''<html>Bad Gateway''])
   \<and> (\<exists>ds. process_pubmed_result
          (\<lambda>s. Some (Element ''PubmedArticleSet'' [] None
             [Element ''PubmedArticle'' [] None
                [Element ''Journal'' [] None [Element ''Title'' [] (Some ''Nature'') []]]]))
          (PStr ''<PubmedArticleSet/>'') = Inr (PList ds) \<and> list_all is_doc ds)
   \<and> (\<exists>ds. process_myvariant_result (\<lambda>v. [])
          (PList [PDict [(''_id'', PStr ''chr17:g.43045712C>T''),
                         (''cadd'', PDict [(''phred'', PInt 0)])]]) = Inr (PList ds)
        \<and> list_all is_doc ds)
   \<and> (\<exists>ds. process_mygene_result (\<lambda>v. [])
          (PDict [(''name'', PStr ''BRCA1''),
                  (''refseq'', PDict [(''rna'', PList [PStr ''NM_007294'']) ]),
                  (''generif'', PList [PDict [(''pubmed'', PInt 1), (''text'', PStr ''note'')]])])
          = Inr (PList ds) \<and> list_all is_doc ds)"
  using processors_on_payloads [of "\<lambda>s. None" "PStr ''<html>Bad Gateway''" undefined
      "PList [PDict [(''_id'', PStr ''chr17:g.43045712C>T''),
                     (''cadd'', PDict [(''phred'', PInt 0)])]]"
      "\<lambda>v. []"
      "PDict [(''name'', PStr ''BRCA1''),
              (''refseq'', PDict [(''rna'', PList [PStr ''NM_007294'']) ]),
              (''generif'', PList [PDict [(''pubmed'', PInt 1), (''text'', PStr ''note'')]])]"]
    processors_on_payloads [of
      "\<lambda>s. Some (Element ''PubmedArticleSet'' [] None
             [Element ''PubmedArticle'' [] None
                [Element ''Journal'' [] None [Element ''Title'' [] (Some ''Nature'') []]]])"
      "PStr ''<PubmedArticleSet/>''"
      "Element ''PubmedArticleSet'' [] None
             [Element ''PubmedArticle'' [] None
                [Element ''Journal'' [] None [Element ''Title'' [] (Some ''Nature'') []]]]"
      PNone "\<lambda>v. []" PNone]
  by (simp add: fromstring_def journals_titled_def efind_def variant_ok_def gene_ok_def
      names_ok_def rifs_ok_def rif_ok_def pathway_ok_def)

subsection \<open>Further properties of the variant processor and the dispatcher\<close>

text \<open>
  The variant processor on records of the shape the variant service sends: one
  document for every record, in order, whatever fields the record has; and a score of
  0 is written into the text like any other score.
\<close>

theorem myvariant_one_document_per_record:
  assumes "list_all variant_ok (as_list variants)"
  shows "process_myvariant_result R variants =
           Inr (PList (map (\<lambda>r. doc_pair
             (variant_data R (field r ''_id'' PNone)
                (field (field (field r ''cadd'' (PDict [])) ''gene'' (PDict [])) ''genename'' PNone)
                (field (field r ''cadd'' (PDict [])) ''consequence'' PNone)
                (field (field r ''cadd'' (PDict [])) ''phred'' PNone)
                (field (field r ''dbsnp'' (PDict [])) ''rsid'' PNone)) [])
             (as_list variants)))
         \<and> (\<exists>before after. variant_data R variant_name gene_affected consequence (PInt 0) rsid
               = before @ ''CADD Score: 0\<newline>'' @ after)"
proof -
  let ?g = "\<lambda>r. [doc_pair
             (variant_data R (field r ''_id'' PNone)
                (field (field (field r ''cadd'' (PDict [])) ''gene'' (PDict [])) ''genename'' PNone)
                (field (field r ''cadd'' (PDict [])) ''consequence'' PNone)
                (field (field r ''cadd'' (PDict [])) ''phred'' PNone)
                (field (field r ''dbsnp'' (PDict [])) ''rsid'' PNone)) []]"
  have "myvariant_record R x = Inr (?g x)" if "x \<in> set (as_list variants)" for x
    using myvariant_record_ok [of x R] assms that by (simp add: list_all_iff)
  from for_each_Inr [of "as_list variants" "myvariant_record R" ?g, OF this]
  have a: "for_each (myvariant_record R) (as_list variants) = Inr (concat (map ?g (as_list variants)))" .
  have b: "concat (map ?g xs) = map (\<lambda>r. hd (?g r)) xs" for xs
    by (induction xs) simp_all
  have c: "str_of_int 0 = ''0''"
    by (simp add: str_of_int_def dec_nat.simps digit_char_def)
  have "variant_data R variant_name gene_affected consequence (PInt 0) rsid
      = ((if truthy variant_name then ''Variant Name: '' @ py_str R variant_name @ ''\<newline>'' else [])
         @ (if truthy gene_affected then ''Gene Affected: '' @ py_str R gene_affected @ ''\<newline>'' else [])
         @ (if truthy consequence then ''Consequence: '' @ py_str R consequence @ ''\<newline>'' else []))
        @ ''CADD Score: 0\<newline>''
        @ (if truthy rsid then ''rsID: '' @ py_str R rsid @ ''\<newline>'' else [])"
    by (simp add: variant_data_def c)
  then have d: "\<exists>before after. variant_data R variant_name gene_affected consequence (PInt 0) rsid
               = before @ ''CADD Score: 0\<newline>'' @ after"
    by blast
  show ?thesis
    using a b d by (simp add: process_myvariant_result_def bindE_def)
qed

theorem myvariant_one_document_per_record_witness:
  "process_myvariant_result (\<lambda>v. [])
     (PList [PDict [], PDict [(''_id'', PStr ''chr17:g.43045712C>T''),
                              (''cadd'', PDict [(''phred'', PInt 0)])]])
   = Inr (PList [doc_pair [] [],
                 doc_pair ''Variant Name: chr17:g.43045712C>T\<newline>CADD Score: 0\<newline>'' []])"
  using myvariant_one_document_per_record [of
      "PList [PDict [], PDict [(''_id'', PStr ''chr17:g.43045712C>T''),
                               (''cadd'', PDict [(''phred'', PInt 0)])]]" "\<lambda>v. []"]
  by (simp add: variant_ok_def variant_data_def str_of_int_def dec_nat.simps digit_char_def)

text \<open>
  A failed execution under the gene or the variant tag: whenever the task contains
  \<^verbatim>\<open>MYGENE\<close> or \<^verbatim>\<open>MYVARIANT\<close>, the doc store has the task's entry and the generated code
  raises an exception, \<^verbatim>\<open>handle_python_result\<close> raises \<^verbatim>\<open>AttributeError\<close>.
\<close>

theorem gene_variant_failure_raises:
  assumes "map_of (tasks ds) key = Some d"
    and "exec_py (wrap_code (tool_of task) result) = Raises_Exception"
    and "str_contains ''MYVARIANT'' task \<or> str_contains ''MYGENE'' task"
  shows "fst (handle_python_result R parse exec_py result cache task ds key) = Inl AttributeError"
proof -
  have v: "process_myvariant_result R PNone = Inl AttributeError"
    by (simp add: process_myvariant_result_def myvariant_record_not_dict bindE_def)
  have g: "process_mygene_result R PNone = Inl AttributeError"
    by (simp add: process_mygene_result_def mygene_record_not_dict bindE_def)
  show ?thesis
    using assms v g
    by (auto simp: handle_python_result_def execute_python_def tool_block_def bindC_def Let_def)
qed

theorem gene_variant_failure_raises_witness:
  "fst (handle_python_result (\<lambda>v. []) (\<lambda>s. None) (\<lambda>code. Raises_Exception)
          ''query_term = 1/0'' [] ''MYVARIANT: rs58991260''
          \<lparr>key_results = None,
           tasks = [(''task_1'', \<lparr>executive_summary = None, result_code = None,
                                results = Some []\<rparr>)]\<rparr>
          ''task_1'') = Inl AttributeError"
  using gene_variant_failure_raises [of
      "\<lparr>key_results = None,
        tasks = [(''task_1'', \<lparr>executive_summary = None, result_code = None,
                             results = Some []\<rparr>)]\<rparr>"
      "''task_1''"
      "\<lparr>executive_summary = None, result_code = None, results = Some []\<rparr>"
      "\<lambda>code. Raises_Exception" "''MYVARIANT: rs58991260''" "''query_term = 1/0''"
      "\<lambda>v. []" "\<lambda>s. None" "[]"]
  by simp

end
